theory Spec2Isabelle
  imports Complex_Main "HOL-Library.Sublist"
begin

section \<open>Multitask BERT: the training driver of multitask\_classifier.py\<close>

text \<open>
  The development embeds the control flow of \<^verbatim>\<open>multitask_classifier.py\<close>: model
  construction, the three loss wrappers, \<^verbatim>\<open>save_model\<close>, the training steps and
  epochs of the three strategies, the prediction files of \<^verbatim>\<open>test_multitask\<close> and the
  dispatch of \<^verbatim>\<open>__main__\<close>. Everything the file imports (torch, the BERT backbone,
  the data loaders, the evaluation functions, the PCGrad optimizer) is a parameter: a
  field of the record \<open>env\<close> over an abstract world \<open>'w\<close>. A Python float is read as
  the real number it denotes. The mean of the dev metrics, on which the choice of the
  checkpoint rests, is computed with the interpreter's float operations, which are
  collaborators too; in the sums of the losses rounding is not modelled.
\<close>

subsection \<open>Exceptions\<close>

text \<open>
  The exceptions the Python file can raise by itself are \<open>AssertionError\<close> (the
  \<^verbatim>\<open>assert\<close> of the constructor), \<open>TypeError\<close> (a call with a missing positional
  argument), \<open>AttributeError\<close> (a method looked up on the wrong kind of value) and
  \<open>ZeroDivisionError\<close> (a float divided by the integer zero); \<open>IOError\<close> is what
  \<^verbatim>\<open>open\<close> raises for a file that cannot be opened. \<open>ConfigurationError\<close>
  and \<open>NumericalError\<close> are names of the specification's taxonomy; no line of the Python
  file raises them. \<open>External\<close> is any failure of a collaborator.
\<close>

datatype error =
    AssertionError
  | TypeError
  | AttributeError
  | ZeroDivisionError
  | IOError
  | ConfigurationError
  | NumericalError
  | External string

subsection \<open>Command line arguments and model configuration\<close>

text \<open>
  The namespace \<^verbatim>\<open>get_args\<close> returns, with \<^verbatim>\<open>filepath\<close>, the attribute
  \<^verbatim>\<open>__main__\<close> adds before any procedure runs. The nine data paths and
  \<^verbatim>\<open>use_gpu\<close> are only handed to the loaders and to torch and are left out.
  \<^verbatim>\<open>epochs\<close> is a natural number: \<^verbatim>\<open>range\<close> of a negative number is as empty as
  \<^verbatim>\<open>range(0)\<close>.
\<close>

record args =
  seed :: int
  epochs :: nat
  fine_tune_mode :: string
  sst_dev_out :: string
  sst_test_out :: string
  para_dev_out :: string
  para_test_out :: string
  sts_dev_out :: string
  sts_test_out :: string
  sst_batch_size :: int
  para_batch_size :: int
  sts_batch_size :: int
  hidden_dropout_prob :: real
  lr :: real
  model_path :: "string option"
  file_prefix_arg :: string
  train_type :: "string option"
  filepath :: string

text \<open>The defaults of the argument parser (lines 707 to 734); \<^verbatim>\<open>filepath\<close> is given.\<close>

definition get_args_default :: "string \<Rightarrow> args" where
  "get_args_default path =
     \<lparr> seed = 11711, epochs = 10, fine_tune_mode = ''last-linear-layer'',
       sst_dev_out = ''predictions/sst-dev-output.csv'',
       sst_test_out = ''predictions/sst-test-output.csv'',
       para_dev_out = ''predictions/para-dev-output.csv'',
       para_test_out = ''predictions/para-test-output.csv'',
       sts_dev_out = ''predictions/sts-dev-output.csv'',
       sts_test_out = ''predictions/sts-test-output.csv'',
       sst_batch_size = 8, para_batch_size = 64, sts_batch_size = 8,
       hidden_dropout_prob = 3 / 10, lr = 1 / 100000,
       model_path = None, file_prefix_arg = [], train_type = None, filepath = path \<rparr>"

text \<open>
  The configuration namespace built at lines 193 to 199. \<^verbatim>\<open>num_labels\<close> is the
  collection of labels the loader found; only its length is used.
\<close>

record config =
  cfg_hidden_dropout_prob :: real
  cfg_num_labels :: "nat list"
  cfg_hidden_size :: nat
  cfg_data_dir :: string
  cfg_fine_tune_mode :: string

definition make_config :: "args \<Rightarrow> nat list \<Rightarrow> config" where
  "make_config a num_labels =
     \<lparr> cfg_hidden_dropout_prob = hidden_dropout_prob a,
       cfg_num_labels = num_labels,
       cfg_hidden_size = 768,
       cfg_data_dir = ''.'',
       cfg_fine_tune_mode = fine_tune_mode a \<rparr>"

subsection \<open>Model construction\<close>

text \<open>
  A parameter tensor, as far as the constructor touches it: a name, a shape and the
  \<^verbatim>\<open>requires_grad\<close> flag.
\<close>

record param =
  p_name :: string
  p_shape :: "nat list"
  requires_grad :: bool

text \<open>
  \<^verbatim>\<open>torch.nn.Linear\<close> and \<^verbatim>\<open>torch.nn.Bilinear\<close> create a weight and a bias, both
  trainable (torch's \<^verbatim>\<open>Parameter\<close> has \<^verbatim>\<open>requires_grad=True\<close> unless told otherwise).
\<close>

definition Linear :: "nat \<Rightarrow> nat \<Rightarrow> param list" where
  "Linear in_features out_features =
     [\<lparr> p_name = ''weight'', p_shape = [out_features, in_features], requires_grad = True \<rparr>,
      \<lparr> p_name = ''bias'', p_shape = [out_features], requires_grad = True \<rparr>]"

definition Bilinear :: "nat \<Rightarrow> nat \<Rightarrow> nat \<Rightarrow> param list" where
  "Bilinear in1_features in2_features out_features =
     [\<lparr> p_name = ''weight'', p_shape = [out_features, in1_features, in2_features],
        requires_grad = True \<rparr>,
      \<lparr> p_name = ''bias'', p_shape = [out_features], requires_grad = True \<rparr>]"

record MultitaskBERT =
  bert :: "param list"
  last_dropout :: real
  last_sentiment :: "param list"
  last_para :: "param list"
  last_similar :: "param list"

text \<open>
  \<^verbatim>\<open>MultitaskBERT.__init__\<close> (lines 67 to 82). The first argument is what
  \<^verbatim>\<open>BertModel.from_pretrained\<close> returned: the backbone's parameters, or its failure.
  The loop body keeps the source's \<^verbatim>\<open>if\<close>/\<^verbatim>\<open>elif\<close>, with no \<^verbatim>\<open>else\<close>.
\<close>

definition set_backbone_grad :: "string \<Rightarrow> param \<Rightarrow> param" where
  "set_backbone_grad mode p =
     (if mode = ''last-linear-layer'' then p\<lparr>requires_grad := False\<rparr>
      else if mode = ''full-model'' then p\<lparr>requires_grad := True\<rparr>
      else p)"

definition MultitaskBERT_init :: "error + param list \<Rightarrow> config \<Rightarrow> error + MultitaskBERT" where
  "MultitaskBERT_init from_pretrained cfg =
     (case from_pretrained of
        Inl e \<Rightarrow> Inl e
      | Inr backbone \<Rightarrow>
          if cfg_fine_tune_mode cfg \<notin> set [''last-linear-layer'', ''full-model'']
          then Inl AssertionError
          else Inr \<lparr> bert = map (set_backbone_grad (cfg_fine_tune_mode cfg)) backbone,
                     last_dropout = cfg_hidden_dropout_prob cfg,
                     last_sentiment = Linear (cfg_hidden_size cfg) (length (cfg_num_labels cfg)),
                     last_para = Bilinear (cfg_hidden_size cfg) (cfg_hidden_size cfg) 1,
                     last_similar = Bilinear (cfg_hidden_size cfg) (cfg_hidden_size cfg) 1 \<rparr>)"

text \<open>The parameters of the three task heads, in the order the constructor creates them.\<close>

definition head_parameters :: "MultitaskBERT \<Rightarrow> param list" where
  "head_parameters m = last_sentiment m @ last_para m @ last_similar m"

subsection \<open>The dispatch of the main program\<close>

text \<open>
  The procedures \<^verbatim>\<open>__main__\<close> calls (lines 740 to 755), as the sequence of its calls
  when each returns normally. The assignment of \<^verbatim>\<open>args.filepath\<close> (lines 742 to 745)
  comes first and calls none of them.
\<close>

datatype call =
    Seed_everything int
  | Train_multitask
  | Train_simultaneous
  | Train_PCGrad
  | Print string
  | Test_multitask

definition is_training :: "call \<Rightarrow> bool" where
  "is_training c = (c = Train_multitask \<or> c = Train_simultaneous \<or> c = Train_PCGrad)"

definition main :: "args \<Rightarrow> call list" where
  "main a =
     [Seed_everything (seed a)] @
     (case train_type a of
        None \<Rightarrow> [Train_multitask]
      | Some t \<Rightarrow>
          if t = ''simultaneous'' then [Train_simultaneous]
          else if t = ''pcgrad'' then [Train_PCGrad]
          else [Print ''Not training'']) @
     [Test_multitask]"

subsection \<open>The prediction files\<close>

text \<open>
  What \<^verbatim>\<open>model_eval_multitask\<close> and \<^verbatim>\<open>model_eval_test_multitask\<close> return to
  \<^verbatim>\<open>test_multitask\<close>: for each task and split the sentence ids and the predictions,
  each already as the text an f-string makes of it.
\<close>

record predictions =
  dev_sst_sent_ids :: "string list"
  dev_sst_y_pred :: "string list"
  test_sst_sent_ids :: "string list"
  test_sst_y_pred :: "string list"
  dev_para_sent_ids :: "string list"
  dev_para_y_pred :: "string list"
  test_para_sent_ids :: "string list"
  test_para_y_pred :: "string list"
  dev_sts_sent_ids :: "string list"
  dev_sts_y_pred :: "string list"
  test_sts_sent_ids :: "string list"
  test_sts_y_pred :: "string list"

type_synonym 'f text_files = "'f \<rightharpoonup> string"

definition TAB :: char where
  "TAB = CHR 0x09"

definition NL :: char where
  "NL = CHR 0x0A"

text \<open>The row \<^verbatim>\<open>f"{p} , {s} \n"\<close> and the loop over \<^verbatim>\<open>zip(ids, preds)\<close>.\<close>

definition write_row :: "string \<times> string \<Rightarrow> string" where
  "write_row ps = fst ps @ '' , '' @ snd ps @ [CHR '' '', NL]"

definition write_rows :: "string list \<Rightarrow> string list \<Rightarrow> string" where
  "write_rows ids preds = concat (map write_row (zip ids preds))"

text \<open>
  One \<^verbatim>\<open>with open(path, "w+") as f\<close> block, given as its path, the column name of its
  header, the ids and the predictions. The files are the files of the file system, not
  their names: \<open>open_file\<close> says which file a path names (two paths may name one file),
  and \<open>None\<close> where the file cannot be opened, which raises. An opened file is created
  or truncated, the header written, then the rows. The header is
  \<^verbatim>\<open>f"id \t Predicted_... \n"\<close>, where \<^verbatim>\<open>\t\<close> is the tab character.
\<close>

type_synonym block = "string \<times> string \<times> string list \<times> string list"

definition write_predictions ::
  "(string \<Rightarrow> 'f option) \<Rightarrow> block \<Rightarrow> 'f text_files \<Rightarrow> error + 'f text_files" where
  "write_predictions open_file b fs =
     (case b of (path, label, ids, preds) \<Rightarrow>
        (case open_file path of
           None \<Rightarrow> Inl IOError
         | Some f \<Rightarrow>
             Inr (fs(f \<mapsto> ''id '' @ [TAB] @ '' '' @ label @ [CHR '' '', NL] @ write_rows ids preds))))"

text \<open>
  The blocks one after the other. An exception ends the run; the files written before it
  stay as they are, so the result is the file system with the exception, if any.
\<close>

fun write_all ::
  "(string \<Rightarrow> 'f option) \<Rightarrow> block list \<Rightarrow> 'f text_files \<Rightarrow> 'f text_files \<times> error option" where
  "write_all open_file [] fs = (fs, None)"
| "write_all open_file (b # bs) fs =
     (case write_predictions open_file b fs of
        Inl e \<Rightarrow> (fs, Some e)
      | Inr fs' \<Rightarrow> write_all open_file bs fs')"

text \<open>Lines 659 to 690 of \<^verbatim>\<open>test_multitask\<close>: the six blocks, in the source's order.\<close>

definition prediction_blocks :: "args \<Rightarrow> predictions \<Rightarrow> block list" where
  "prediction_blocks a ev =
     [(sst_dev_out a, ''Predicted_Sentiment'', dev_sst_sent_ids ev, dev_sst_y_pred ev),
      (sst_test_out a, ''Predicted_Sentiment'', test_sst_sent_ids ev, test_sst_y_pred ev),
      (para_dev_out a, ''Predicted_Is_Paraphrase'', dev_para_sent_ids ev, dev_para_y_pred ev),
      (para_test_out a, ''Predicted_Is_Paraphrase'', test_para_sent_ids ev, test_para_y_pred ev),
      (sts_dev_out a, ''Predicted_Similiary'', dev_sts_sent_ids ev, dev_sts_y_pred ev),
      (sts_test_out a, ''Predicted_Similiary'', test_sts_sent_ids ev, test_sts_y_pred ev)]"

definition test_multitask ::
  "(string \<Rightarrow> 'f option) \<Rightarrow> args \<Rightarrow> predictions \<Rightarrow> 'f text_files \<Rightarrow>
   'f text_files \<times> error option" where
  "test_multitask open_file a ev fs = write_all open_file (prediction_blocks a ev) fs"

text \<open>The first line of a text: everything before its first newline.\<close>

definition first_line :: "string \<Rightarrow> string" where
  "first_line s = takeWhile (\<lambda>c. c \<noteq> NL) s"

subsection \<open>Checkpoints\<close>

text \<open>
  The values \<^verbatim>\<open>save_model\<close> puts into its dictionary: the two state dictionaries
  (abstract: \<open>'m\<close> and \<open>'o\<close>), the two namespaces and a generator state (a sequence of
  numbers for each of the three libraries).
\<close>

datatype ('m, 'o) pyobj =
    Model_state 'm
  | Optim_state 'o
  | Args_namespace args
  | Config_namespace config
  | Rng_state "nat list"

type_synonym ('m, 'o) checkpoint = "(string \<times> ('m, 'o) pyobj) list"

datatype out_line =
    Text string
  | Epoch_summary nat real real real

text \<open>The calls the training code makes on the optimizer and on a loss tensor.\<close>

datatype opt_call =
    Zero_grad
  | Pc_backward "real list"
  | Loss_backward real
  | Optimizer_step

text \<open>
  The state of a training run: the world of the collaborators (parameters, gradients,
  optimizer, loaders, generators), the checkpoint files, the standard output, the
  optimizer calls made so far, and the local variables of the training functions.
\<close>

record ('w, 'm, 'o) state =
  world :: 'w
  files :: "string \<rightharpoonup> ('m, 'o) checkpoint"
  stdout :: "out_line list"
  opt_calls :: "opt_call list"
  train_loss :: real
  num_batches :: nat
  best_dev_acc :: real
  train_acc :: real

subsection \<open>Collaborators\<close>

record 't sst_batch =
  token_ids :: 't
  attention_mask :: 't
  labels :: 't

record 't pair_batch =
  token_ids_1 :: 't
  attention_mask_1 :: 't
  token_ids_2 :: 't
  attention_mask_2 :: 't
  pair_labels :: 't

datatype loader = Sst_train | Sst_dev | Para_train | Para_dev | Sts_train | Sts_dev

text \<open>
  Everything imported. A loss is read as the real number \<^verbatim>\<open>loss.item()\<close> gives; the
  graph it hangs on is part of the world. \<open>next_batch\<close> is \<^verbatim>\<open>next(iter(loader))\<close>,
  \<open>all_batches\<close> one pass of \<^verbatim>\<open>for batch in loader\<close>. The forward passes
  \<open>predict_\<close> (lines 85 to 131) only chain torch modules and are kept abstract. The
  three \<open>_sum\<close> fields are the torch expressions the loss wrappers divide by the batch
  size. The first component of what an evaluation function returns is its metric, a
  finite float, read as the real number it denotes. \<open>float_add\<close> and \<open>float_div\<close>
  are the interpreter's addition and division of two floats, each with its rounding:
  the mean of the dev metrics is computed with them, in the source's order. Comparing
  two finite floats is comparing the numbers.
\<close>

record ('w, 't, 'm, 'o) env =
  next_sst_batch :: "'w \<Rightarrow> 't sst_batch \<times> 'w"
  next_pair_batch :: "loader \<Rightarrow> 'w \<Rightarrow> 't pair_batch \<times> 'w"
  all_sst_batches :: "'w \<Rightarrow> 't sst_batch list \<times> 'w"
  all_pair_batches :: "loader \<Rightarrow> 'w \<Rightarrow> 't pair_batch list \<times> 'w"
  model_train :: "'w \<Rightarrow> 'w"
  zero_grad :: "'w \<Rightarrow> 'w"
  predict_sentiment :: "'t \<Rightarrow> 't \<Rightarrow> 'w \<Rightarrow> 't \<times> 'w"
  predict_paraphrase :: "'t \<Rightarrow> 't \<Rightarrow> 't \<Rightarrow> 't \<Rightarrow> 'w \<Rightarrow> 't \<times> 'w"
  predict_similarity :: "'t \<Rightarrow> 't \<Rightarrow> 't \<Rightarrow> 't \<Rightarrow> 'w \<Rightarrow> 't \<times> 'w"
  cross_entropy_sum :: "'t \<Rightarrow> 't \<Rightarrow> real"
  binary_cross_entropy_sum :: "'t \<Rightarrow> 't \<Rightarrow> real"
  cosine_distance_sum :: "'t \<Rightarrow> 't \<Rightarrow> real"
  pc_backward :: "real list \<Rightarrow> 'w \<Rightarrow> 'w"
  backward :: "real \<Rightarrow> 'w \<Rightarrow> 'w"
  optimizer_step :: "'w \<Rightarrow> 'w"
  new_optimizer :: "'w \<Rightarrow> 'w"
  model_eval_sst :: "loader \<Rightarrow> 'w \<Rightarrow> real \<times> 'w"
  model_eval_para :: "loader \<Rightarrow> 'w \<Rightarrow> real \<times> 'w"
  model_eval_sts :: "loader \<Rightarrow> 'w \<Rightarrow> real \<times> 'w"
  float_add :: "real \<Rightarrow> real \<Rightarrow> real"
  float_div :: "real \<Rightarrow> real \<Rightarrow> real"
  model_state_dict :: "'w \<Rightarrow> 'm"
  optimizer_state_dict :: "'w \<Rightarrow> 'o"
  random_getstate :: "'w \<Rightarrow> nat list"
  np_random_get_state :: "'w \<Rightarrow> nat list"
  torch_get_rng_state :: "'w \<Rightarrow> nat list"

text \<open>
  \<^verbatim>\<open>save_model\<close> (lines 143 to 155): the dictionary literal, in the source's key
  order, \<^verbatim>\<open>torch.save\<close> of it to \<^verbatim>\<open>filepath\<close>, and the message printed.
\<close>

definition save_info ::
  "('w, 't, 'm, 'o) env \<Rightarrow> args \<Rightarrow> config \<Rightarrow> 'w \<Rightarrow> ('m, 'o) checkpoint" where
  "save_info E a cfg w =
     [(''model'', Model_state (model_state_dict E w)),
      (''optim'', Optim_state (optimizer_state_dict E w)),
      (''args'', Args_namespace a),
      (''model_config'', Config_namespace cfg),
      (''system_rng'', Rng_state (random_getstate E w)),
      (''numpy_rng'', Rng_state (np_random_get_state E w)),
      (''torch_rng'', Rng_state (torch_get_rng_state E w))]"

definition save_model ::
  "('w, 't, 'm, 'o) env \<Rightarrow> args \<Rightarrow> config \<Rightarrow> string \<Rightarrow>
   ('w, 'm, 'o) state \<Rightarrow> ('w, 'm, 'o) state" where
  "save_model E a cfg path s =
     s\<lparr> files := (files s)(path \<mapsto> save_info E a cfg (world s)),
        stdout := stdout s @ [Text (''save the model to '' @ path)] \<rparr>"

subsection \<open>The loss wrappers\<close>

text \<open>
  A Python call hands a list of positional arguments to a function. Each of the three
  loss wrappers declares three parameters, \<^verbatim>\<open>(logits, b_labels, args)\<close>, none with a
  default: any other number of arguments is a \<open>TypeError\<close>, raised before the body
  runs.
\<close>

datatype 't pyarg = Tensor 't | Namespace args

definition bind3 :: "'a list \<Rightarrow> error + 'a \<times> 'a \<times> 'a" where
  "bind3 actuals = (case actuals of [x, y, z] \<Rightarrow> Inr (x, y, z) | _ \<Rightarrow> Inl TypeError)"

text \<open>
  The bodies (lines 133 to 141) divide a torch sum by a batch size of \<^verbatim>\<open>args\<close>. The
  loaders are built with the same batch sizes and torch refuses a loader whose batch size
  is not positive, so the divisor is positive wherever a batch exists.
\<close>

definition sst_loss :: "('w, 't, 'm, 'o) env \<Rightarrow> 't pyarg list \<Rightarrow> error + real" where
  "sst_loss E actuals =
     (case bind3 actuals of
        Inl e \<Rightarrow> Inl e
      | Inr (Tensor logits, Tensor b_labels, Namespace a) \<Rightarrow>
          Inr (cross_entropy_sum E logits b_labels / real_of_int (sst_batch_size a))
      | Inr _ \<Rightarrow> Inl AttributeError)"

definition para_loss :: "('w, 't, 'm, 'o) env \<Rightarrow> 't pyarg list \<Rightarrow> error + real" where
  "para_loss E actuals =
     (case bind3 actuals of
        Inl e \<Rightarrow> Inl e
      | Inr (Tensor logits, Tensor b_labels, Namespace a) \<Rightarrow>
          Inr (binary_cross_entropy_sum E logits b_labels / real_of_int (para_batch_size a))
      | Inr _ \<Rightarrow> Inl AttributeError)"

definition sts_loss :: "('w, 't, 'm, 'o) env \<Rightarrow> 't pyarg list \<Rightarrow> error + real" where
  "sts_loss E actuals =
     (case bind3 actuals of
        Inl e \<Rightarrow> Inl e
      | Inr (Tensor logits, Tensor b_labels, Namespace a) \<Rightarrow>
          Inr (cosine_distance_sum E logits b_labels / real_of_int (sts_batch_size a))
      | Inr _ \<Rightarrow> Inl AttributeError)"

subsection \<open>Loops\<close>

text \<open>\<^verbatim>\<open>for i in range(n)\<close> with a body that ignores \<^verbatim>\<open>i\<close>, and \<^verbatim>\<open>for x in xs\<close>.\<close>

fun repeat :: "nat \<Rightarrow> ('s \<Rightarrow> error + 's) \<Rightarrow> 's \<Rightarrow> error + 's" where
  "repeat 0 body s = Inr s"
| "repeat (Suc n) body s =
     (case body s of Inl e \<Rightarrow> Inl e | Inr s' \<Rightarrow> repeat n body s')"

fun for_each :: "('x \<Rightarrow> 's \<Rightarrow> error + 's) \<Rightarrow> 'x list \<Rightarrow> 's \<Rightarrow> error + 's" where
  "for_each body [] s = Inr s"
| "for_each body (x # xs) s =
     (case body x s of Inl e \<Rightarrow> Inl e | Inr s' \<Rightarrow> for_each body xs s')"

subsection \<open>Training all tasks together: PCGrad and the summed loss\<close>

text \<open>
  The three forward passes and losses of one step (lines 253 to 261 and 384 to 392, the
  same text), from the three batches and the world after \<^verbatim>\<open>zero_grad\<close>.
\<close>

definition forward_losses ::
  "('w, 't, 'm, 'o) env \<Rightarrow> args \<Rightarrow> 't sst_batch \<Rightarrow> 't pair_batch \<Rightarrow> 't pair_batch \<Rightarrow> 'w \<Rightarrow>
   error + (real \<times> real \<times> real) \<times> 'w" where
  "forward_losses E a batch_sst batch_para batch_sts w =
     (let (logits_sst, w1) =
            predict_sentiment E (token_ids batch_sst) (attention_mask batch_sst) w
      in case sst_loss E [Tensor logits_sst, Tensor (labels batch_sst), Namespace a] of
           Inl e \<Rightarrow> Inl e
         | Inr l1 \<Rightarrow>
             let (logits_para, w2) =
                   predict_paraphrase E (token_ids_1 batch_para) (attention_mask_1 batch_para)
                     (token_ids_2 batch_para) (attention_mask_2 batch_para) w1
             in case para_loss E
                       [Tensor logits_para, Tensor (pair_labels batch_para), Namespace a] of
                  Inl e \<Rightarrow> Inl e
                | Inr l2 \<Rightarrow>
                    let (logits_sts, w3) =
                          predict_similarity E (token_ids_1 batch_sts) (attention_mask_1 batch_sts)
                            (token_ids_2 batch_sts) (attention_mask_2 batch_sts) w2
                    in case sts_loss E
                              [Tensor logits_sts, Tensor (pair_labels batch_sts), Namespace a] of
                         Inl e \<Rightarrow> Inl e
                       | Inr l3 \<Rightarrow> Inr ((l1, l2, l3), w3))"

text \<open>The three batches of a step (lines 220 to 222 and 351 to 353).\<close>

definition draw_batches ::
  "('w, 't, 'm, 'o) env \<Rightarrow> 'w \<Rightarrow> ('t sst_batch \<times> 't pair_batch \<times> 't pair_batch) \<times> 'w" where
  "draw_batches E w =
     (let (batch_sst, w1) = next_sst_batch E w;
          (batch_para, w2) = next_pair_batch E Para_train w1;
          (batch_sts, w3) = next_pair_batch E Sts_train w2
      in ((batch_sst, batch_para, batch_sts), w3))"

text \<open>One step of \<^verbatim>\<open>train_PCGrad\<close>: the body of the inner loop, lines 220 to 270.\<close>

definition train_PCGrad_step ::
  "('w, 't, 'm, 'o) env \<Rightarrow> args \<Rightarrow> ('w, 'm, 'o) state \<Rightarrow> error + ('w, 'm, 'o) state" where
  "train_PCGrad_step E a s =
     (let ((batch_sst, batch_para, batch_sts), w) = draw_batches E (world s);
          w0 = zero_grad E w
      in case forward_losses E a batch_sst batch_para batch_sts w0 of
           Inl e \<Rightarrow> Inl e
         | Inr ((l1, l2, l3), w1) \<Rightarrow>
             let loss_sum = l1 + l2 + l3;
                 losses = [l1, l2, l3];
                 w2 = pc_backward E losses w1;
                 w3 = optimizer_step E w2
             in Inr (s\<lparr> world := w3,
                        opt_calls := opt_calls s @ [Zero_grad, Pc_backward losses, Optimizer_step],
                        train_loss := train_loss s + loss_sum,
                        num_batches := num_batches s + 1 \<rparr>))"

text \<open>One step of \<^verbatim>\<open>train_simultaneous\<close>: lines 351 to 400.\<close>

definition train_simultaneous_step ::
  "('w, 't, 'm, 'o) env \<Rightarrow> args \<Rightarrow> ('w, 'm, 'o) state \<Rightarrow> error + ('w, 'm, 'o) state" where
  "train_simultaneous_step E a s =
     (let ((batch_sst, batch_para, batch_sts), w) = draw_batches E (world s);
          w0 = zero_grad E w
      in case forward_losses E a batch_sst batch_para batch_sts w0 of
           Inl e \<Rightarrow> Inl e
         | Inr ((l1, l2, l3), w1) \<Rightarrow>
             let loss = l1 + l2 + l3;
                 w2 = backward E loss w1;
                 w3 = optimizer_step E w2
             in Inr (s\<lparr> world := w3,
                        opt_calls := opt_calls s @ [Zero_grad, Loss_backward loss, Optimizer_step],
                        train_loss := train_loss s + loss,
                        num_batches := num_batches s + 1 \<rparr>))"

text \<open>
  The four evaluations after the steps of an epoch (lines 274 to 278 and 404 to 408):
  the SST training accuracy and the three dev metrics.
\<close>

definition evaluate_all ::
  "('w, 't, 'm, 'o) env \<Rightarrow> 'w \<Rightarrow> (real \<times> real \<times> real \<times> real) \<times> 'w" where
  "evaluate_all E w =
     (let (tr_acc, w1) = model_eval_sst E Sst_train w;
          (dev_acc_sst, w2) = model_eval_sst E Sst_dev w1;
          (dev_acc_para, w3) = model_eval_para E Para_dev w2;
          (dev_acc_sts, w4) = model_eval_sts E Sts_dev w3
      in ((tr_acc, dev_acc_sst, dev_acc_para, dev_acc_sts), w4))"

text \<open>
  The comparison with the best dev metric, the checkpoint and the summary line (lines
  282 to 286, 412 to 416, and the same text at the end of each epoch of the sequential
  phases).
\<close>

definition keep_best ::
  "('w, 't, 'm, 'o) env \<Rightarrow> args \<Rightarrow> config \<Rightarrow> nat \<Rightarrow> real \<Rightarrow>
   ('w, 'm, 'o) state \<Rightarrow> ('w, 'm, 'o) state" where
  "keep_best E a cfg epoch dev_acc s =
     (let s1 = (if dev_acc > best_dev_acc s
                then save_model E a cfg (filepath a) (s\<lparr>best_dev_acc := dev_acc\<rparr>)
                else s)
      in s1\<lparr> stdout := stdout s1 @ [Epoch_summary epoch (train_loss s1) (train_acc s1) dev_acc] \<rparr>)"

text \<open>
  The end of an epoch of \<^verbatim>\<open>train_PCGrad\<close> and \<^verbatim>\<open>train_simultaneous\<close> (lines 272
  to 286 and 402 to 416). Dividing by \<^verbatim>\<open>num_batches = 0\<close> raises.
\<close>

definition end_of_epoch ::
  "('w, 't, 'm, 'o) env \<Rightarrow> args \<Rightarrow> config \<Rightarrow> nat \<Rightarrow>
   ('w, 'm, 'o) state \<Rightarrow> error + ('w, 'm, 'o) state" where
  "end_of_epoch E a cfg epoch s =
     (if num_batches s = 0 then Inl ZeroDivisionError
      else
        let mean_loss = train_loss s / real (num_batches s);
            ((tr_acc, dev_acc_sst, dev_acc_para, dev_acc_sts), w) = evaluate_all E (world s);
            dev_acc = float_div E (float_add E (float_add E dev_acc_sst dev_acc_para) dev_acc_sts) 3
        in Inr (keep_best E a cfg epoch dev_acc
                  (s\<lparr> world := w, train_loss := mean_loss, train_acc := tr_acc \<rparr>)))"

text \<open>One epoch: \<^verbatim>\<open>model.train()\<close>, the counters reset, a thousand steps, the end.\<close>

definition train_epoch ::
  "(('w, 'm, 'o) state \<Rightarrow> error + ('w, 'm, 'o) state) \<Rightarrow>
   ('w, 't, 'm, 'o) env \<Rightarrow> args \<Rightarrow> config \<Rightarrow> nat \<Rightarrow>
   ('w, 'm, 'o) state \<Rightarrow> error + ('w, 'm, 'o) state" where
  "train_epoch step E a cfg epoch s =
     (case repeat 1000 step
             (s\<lparr> world := model_train E (world s), train_loss := 0, num_batches := 0 \<rparr>) of
        Inl e \<Rightarrow> Inl e
      | Inr s1 \<Rightarrow> end_of_epoch E a cfg epoch s1)"

text \<open>
  The epoch loops of \<^verbatim>\<open>train_PCGrad\<close> (lines 211 to 286) and of
  \<^verbatim>\<open>train_simultaneous\<close> (lines 342 to 416), from the world in which the model and
  the optimizer have been built. They differ in the step and in the line printed.
\<close>

definition train_PCGrad ::
  "('w, 't, 'm, 'o) env \<Rightarrow> args \<Rightarrow> config \<Rightarrow>
   ('w, 'm, 'o) state \<Rightarrow> error + ('w, 'm, 'o) state" where
  "train_PCGrad E a cfg s =
     for_each (train_epoch (train_PCGrad_step E a) E a cfg) [0 ..< epochs a]
       (s\<lparr> best_dev_acc := 0, stdout := stdout s @ [Text ''Training with PCGrad''] \<rparr>)"

definition train_simultaneous ::
  "('w, 't, 'm, 'o) env \<Rightarrow> args \<Rightarrow> config \<Rightarrow>
   ('w, 'm, 'o) state \<Rightarrow> error + ('w, 'm, 'o) state" where
  "train_simultaneous E a cfg s =
     for_each (train_epoch (train_simultaneous_step E a) E a cfg) [0 ..< epochs a]
       (s\<lparr> best_dev_acc := 0, stdout := stdout s @ [Text ''Training alltogether''] \<rparr>)"

subsection \<open>Training the tasks one after the other\<close>

text \<open>The training step of the sentiment phase (lines 487 to 503).\<close>

definition train_sst_step ::
  "('w, 't, 'm, 'o) env \<Rightarrow> args \<Rightarrow> 't sst_batch \<Rightarrow>
   ('w, 'm, 'o) state \<Rightarrow> error + ('w, 'm, 'o) state" where
  "train_sst_step E a batch s =
     (let w0 = zero_grad E (world s);
          (logits, w1) = predict_sentiment E (token_ids batch) (attention_mask batch) w0
      in case sst_loss E [Tensor logits, Tensor (labels batch), Namespace a] of
           Inl e \<Rightarrow> Inl e
         | Inr loss \<Rightarrow>
             let w2 = backward E loss w1;
                 w3 = optimizer_step E w2
             in Inr (s\<lparr> world := w3,
                        opt_calls := opt_calls s @ [Zero_grad, Loss_backward loss, Optimizer_step],
                        train_loss := train_loss s + loss,
                        num_batches := num_batches s + 1 \<rparr>))"

text \<open>The training step of the paraphrase phase (lines 528 to 549).\<close>

definition train_para_step ::
  "('w, 't, 'm, 'o) env \<Rightarrow> args \<Rightarrow> ('w, 'm, 'o) state \<Rightarrow> error + ('w, 'm, 'o) state" where
  "train_para_step E a s =
     (let (batch, w) = next_pair_batch E Para_train (world s);
          w0 = zero_grad E w;
          (logits, w1) =
            predict_paraphrase E (token_ids_1 batch) (attention_mask_1 batch)
              (token_ids_2 batch) (attention_mask_2 batch) w0
      in case para_loss E [Tensor logits, Tensor (pair_labels batch), Namespace a] of
           Inl e \<Rightarrow> Inl e
         | Inr loss \<Rightarrow>
             let w2 = backward E loss w1;
                 w3 = optimizer_step E w2
             in Inr (s\<lparr> world := w3,
                        opt_calls := opt_calls s @ [Zero_grad, Loss_backward loss, Optimizer_step],
                        train_loss := train_loss s + loss,
                        num_batches := num_batches s + 1 \<rparr>))"

text \<open>
  The training step of the similarity phase (lines 572 to 592). Line 585 is
  \<^verbatim>\<open>loss = sts_loss(logits, b_labels)\<close>: two arguments.
\<close>

definition train_sts_step ::
  "('w, 't, 'm, 'o) env \<Rightarrow> args \<Rightarrow> 't pair_batch \<Rightarrow>
   ('w, 'm, 'o) state \<Rightarrow> error + ('w, 'm, 'o) state" where
  "train_sts_step E a batch s =
     (let w0 = zero_grad E (world s);
          (logits, w1) =
            predict_similarity E (token_ids_1 batch) (attention_mask_1 batch)
              (token_ids_2 batch) (attention_mask_2 batch) w0
      in case sts_loss E [Tensor logits, Tensor (pair_labels batch)] of
           Inl e \<Rightarrow> Inl e
         | Inr loss \<Rightarrow>
             let w2 = backward E loss w1;
                 w3 = optimizer_step E w2
             in Inr (s\<lparr> world := w3,
                        opt_calls := opt_calls s @ [Zero_grad, Loss_backward loss, Optimizer_step],
                        train_loss := train_loss s + loss,
                        num_batches := num_batches s + 1 \<rparr>))"

text \<open>An epoch of the sentiment phase (lines 483 to 514).\<close>

definition train_sst_epoch ::
  "('w, 't, 'm, 'o) env \<Rightarrow> args \<Rightarrow> config \<Rightarrow> nat \<Rightarrow>
   ('w, 'm, 'o) state \<Rightarrow> error + ('w, 'm, 'o) state" where
  "train_sst_epoch E a cfg epoch s =
     (let (batches, w) = all_sst_batches E (model_train E (world s))
      in case for_each (train_sst_step E a) batches
                (s\<lparr> world := w, train_loss := 0, num_batches := 0 \<rparr>) of
           Inl e \<Rightarrow> Inl e
         | Inr s1 \<Rightarrow>
             if num_batches s1 = 0 then Inl ZeroDivisionError
             else
               let mean_loss = train_loss s1 / real (num_batches s1);
                   (tr_acc, w1) = model_eval_sst E Sst_train (world s1);
                   (dev_acc, w2) = model_eval_sst E Sst_dev w1
               in Inr (keep_best E a cfg epoch dev_acc
                         (s1\<lparr> world := w2, train_loss := mean_loss, train_acc := tr_acc \<rparr>)))"

text \<open>
  An epoch of the paraphrase phase (lines 523 to 560). The training accuracy is not
  evaluated: the summary line prints the last one of the sentiment phase.
\<close>

definition train_para_epoch ::
  "('w, 't, 'm, 'o) env \<Rightarrow> args \<Rightarrow> config \<Rightarrow> nat \<Rightarrow>
   ('w, 'm, 'o) state \<Rightarrow> error + ('w, 'm, 'o) state" where
  "train_para_epoch E a cfg epoch s =
     (case repeat 1000 (train_para_step E a)
             (s\<lparr> world := model_train E (world s), train_loss := 0, num_batches := 0 \<rparr>) of
        Inl e \<Rightarrow> Inl e
      | Inr s1 \<Rightarrow>
          if num_batches s1 = 0 then Inl ZeroDivisionError
          else
            let mean_loss = train_loss s1 / real (num_batches s1);
                (dev_acc, w1) = model_eval_para E Para_dev (world s1)
            in Inr (keep_best E a cfg epoch dev_acc
                      (s1\<lparr> world := w1, train_loss := mean_loss \<rparr>)))"

text \<open>An epoch of the similarity phase (lines 568 to 603).\<close>

definition train_sts_epoch ::
  "('w, 't, 'm, 'o) env \<Rightarrow> args \<Rightarrow> config \<Rightarrow> nat \<Rightarrow>
   ('w, 'm, 'o) state \<Rightarrow> error + ('w, 'm, 'o) state" where
  "train_sts_epoch E a cfg epoch s =
     (let (batches, w) = all_pair_batches E Sts_train (model_train E (world s))
      in case for_each (train_sts_step E a) batches
                (s\<lparr> world := w, train_loss := 0, num_batches := 0 \<rparr>) of
           Inl e \<Rightarrow> Inl e
         | Inr s1 \<Rightarrow>
             if num_batches s1 = 0 then Inl ZeroDivisionError
             else
               let mean_loss = train_loss s1 / real (num_batches s1);
                   (tr_acc, w1) = model_eval_sts E Sts_train (world s1);
                   (dev_acc, w2) = model_eval_sts E Sts_dev w1
               in Inr (keep_best E a cfg epoch dev_acc
                         (s1\<lparr> world := w2, train_loss := mean_loss, train_acc := tr_acc \<rparr>)))"

text \<open>
  The three phases of \<^verbatim>\<open>train_multitask\<close> (lines 476 to 603), from the world in which
  the model has been built. Each phase makes a fresh optimizer and starts from
  \<^verbatim>\<open>best_dev_acc = 0\<close>.
\<close>

definition train_sst_phase ::
  "('w, 't, 'm, 'o) env \<Rightarrow> args \<Rightarrow> config \<Rightarrow>
   ('w, 'm, 'o) state \<Rightarrow> error + ('w, 'm, 'o) state" where
  "train_sst_phase E a cfg s =
     for_each (train_sst_epoch E a cfg) [0 ..< epochs a]
       (s\<lparr> world := new_optimizer E (world s), best_dev_acc := 0,
           stdout := stdout s @ [Text ''Training sentiment analysis''] \<rparr>)"

definition train_para_phase ::
  "('w, 't, 'm, 'o) env \<Rightarrow> args \<Rightarrow> config \<Rightarrow>
   ('w, 'm, 'o) state \<Rightarrow> error + ('w, 'm, 'o) state" where
  "train_para_phase E a cfg s =
     for_each (train_para_epoch E a cfg) [0 ..< epochs a]
       (s\<lparr> world := new_optimizer E (world s), best_dev_acc := 0,
           stdout := stdout s @ [Text ''Training paraphrase''] \<rparr>)"

definition train_sts_phase ::
  "('w, 't, 'm, 'o) env \<Rightarrow> args \<Rightarrow> config \<Rightarrow>
   ('w, 'm, 'o) state \<Rightarrow> error + ('w, 'm, 'o) state" where
  "train_sts_phase E a cfg s =
     for_each (train_sts_epoch E a cfg) [0 ..< epochs a]
       (s\<lparr> world := new_optimizer E (world s), best_dev_acc := 0,
           stdout := stdout s @ [Text ''Training STS''] \<rparr>)"

definition train_multitask ::
  "('w, 't, 'm, 'o) env \<Rightarrow> args \<Rightarrow> config \<Rightarrow>
   ('w, 'm, 'o) state \<Rightarrow> error + ('w, 'm, 'o) state" where
  "train_multitask E a cfg s =
     (case train_sst_phase E a cfg s of
        Inl e \<Rightarrow> Inl e
      | Inr s1 \<Rightarrow>
          (case train_para_phase E a cfg s1 of
             Inl e \<Rightarrow> Inl e
           | Inr s2 \<Rightarrow> train_sts_phase E a cfg s2))"

subsection \<open>The gradient surgery optimizer\<close>

text \<open>
  Modelled from the spec: the Gradient Surgery Optimizer, \<^verbatim>\<open>pcgrad.py\<close>, which the
  training file imports at line 27 and which is not among the sources. The definitions
  follow section 4.1 of the specification. A gradient is the flattened vector over all
  parameters, a task that did not touch a parameter contributing zero there. The
  training steps above reach the optimizer through the fields \<open>zero_grad\<close>,
  \<open>pc_backward\<close> and \<open>optimizer_step\<close> of the collaborators.
\<close>

type_synonym grad = "real list"

text \<open>
  Modelled from the spec: the dot product of two flattened gradients and the squared
  norm \<open>||g||^2\<close> of the projection formula.
\<close>

definition dot :: "grad \<Rightarrow> grad \<Rightarrow> real" where
  "dot u v = sum_list (map2 (*) u v)"

definition norm_sq :: "grad \<Rightarrow> real" where
  "norm_sq g = dot g g"

text \<open>
  Modelled from the spec: the division of the formula. The specification speaks of a
  division by zero as an exception, so dividing by zero has no value here.
\<close>

definition divide_checked :: "real \<Rightarrow> real \<Rightarrow> error + real" where
  "divide_checked x y = (if y = 0 then Inl ZeroDivisionError else Inr (x / y))"

text \<open>
  Modelled from the spec: the projection formula of step 3,
  \<^verbatim>\<open>pg_i <- pg_i - (dot(pg_i, g_j) / ||g_j||^2) * g_j\<close>, on vectors of one dimension
  (a \<open>ConfigurationError\<close> otherwise: the losses do not share their parameters).
\<close>

definition projection_formula :: "grad \<Rightarrow> grad \<Rightarrow> error + grad" where
  "projection_formula pg g =
     (if length pg \<noteq> length g then Inl ConfigurationError
      else case divide_checked (dot pg g) (norm_sq g) of
             Inl e \<Rightarrow> Inl e
           | Inr c \<Rightarrow> Inr (map2 (\<lambda>p x. p - c * x) pg g))"

text \<open>
  Modelled from the spec: one pairwise projection step. The formula is applied only when
  the dot product is negative; a reference gradient of zero norm met there is the
  degenerate case, and the projection is skipped (the log entry is left out).
\<close>

definition project_pair :: "grad \<Rightarrow> grad \<Rightarrow> error + grad" where
  "project_pair pg g =
     (if dot pg g < 0
      then (if norm_sq g = 0 then Inr pg else projection_formula pg g)
      else Inr pg)"

text \<open>
  Modelled from the spec: the sweep over the ordered pairs \<open>(i, j)\<close>, in the order drawn
  for this call. The target is always the original \<open>g_j\<close>. A pair that is not a pair of
  two different tasks is never drawn; the model refuses it.
\<close>

fun project_pairs :: "grad list \<Rightarrow> (nat \<times> nat) list \<Rightarrow> grad list \<Rightarrow> error + grad list" where
  "project_pairs grads [] pgs = Inr pgs"
| "project_pairs grads ((i, j) # rest) pgs =
     (if i = j \<or> length pgs \<le> i \<or> length grads \<le> j then Inl ConfigurationError
      else case project_pair (pgs ! i) (grads ! j) of
             Inl e \<Rightarrow> Inl e
           | Inr v \<Rightarrow> project_pairs grads rest (pgs[i := v]))"

text \<open>Modelled from the spec: step 4, the sum of the projected gradients.\<close>

definition merge_grads :: "grad list \<Rightarrow> grad" where
  "merge_grads pgs = map (\<lambda>k. sum_list (map (\<lambda>pg. pg ! k) pgs)) [0 ..< length (hd pgs)]"

text \<open>
  Modelled from the spec: \<^verbatim>\<open>compute_combined_gradients\<close>, from the per-task
  gradients of step 1 and the pair order. An empty list of losses, or gradients of
  different dimensions, is a \<open>ConfigurationError\<close>.
\<close>

definition compute_combined_gradients ::
  "(nat \<times> nat) list \<Rightarrow> grad list \<Rightarrow> error + grad" where
  "compute_combined_gradients order grads =
     (if grads = [] \<or> (\<exists>g \<in> set grads. length g \<noteq> length (hd grads))
      then Inl ConfigurationError
      else case project_pairs grads order grads of
             Inl e \<Rightarrow> Inl e
           | Inr pgs \<Rightarrow> Inr (merge_grads pgs))"

subsection \<open>Concrete inputs\<close>

text \<open>Small inputs on which the theorems below are instantiated.\<close>

text \<open>
  A file system for evaluation: the empty path cannot be opened, and \<^verbatim>\<open>./name\<close> names
  the file \<^verbatim>\<open>name\<close>.
\<close>

definition demo_open :: "string \<Rightarrow> string option" where
  "demo_open path =
     (if path = [] then None
      else if take 2 path = ''./'' then Some (drop 2 path)
      else Some path)"

definition demo_backbone :: "param list" where
  "demo_backbone =
     [\<lparr> p_name = ''embedding.weight'', p_shape = [4, 2], requires_grad = True \<rparr>,
      \<lparr> p_name = ''pooler.weight'', p_shape = [2, 2], requires_grad = False \<rparr>]"

definition demo_predictions :: predictions where
  "demo_predictions =
     \<lparr> dev_sst_sent_ids = [''a1'', ''a2''], dev_sst_y_pred = [''3'', ''0''],
       test_sst_sent_ids = [''b1''], test_sst_y_pred = [''4''],
       dev_para_sent_ids = [''c1''], dev_para_y_pred = [''1.0''],
       test_para_sent_ids = [''d1''], test_para_y_pred = [''0.0''],
       dev_sts_sent_ids = [''e1''], dev_sts_y_pred = [''2.5''],
       test_sts_sent_ids = [], test_sts_y_pred = [] \<rparr>"

text \<open>
  A small world for evaluation: it counts the optimizer steps; every loader yields the
  same single batch, and the metrics are constants.
\<close>

definition demo_env :: "(nat, nat, nat, nat) env" where
  "demo_env =
     \<lparr> next_sst_batch = (\<lambda>w. (\<lparr>token_ids = 1, attention_mask = 1, labels = 0\<rparr>, w)),
       next_pair_batch = (\<lambda>l w. (\<lparr>token_ids_1 = 1, attention_mask_1 = 1, token_ids_2 = 2,
                                    attention_mask_2 = 1, pair_labels = 1\<rparr>, w)),
       all_sst_batches = (\<lambda>w. ([\<lparr>token_ids = 1, attention_mask = 1, labels = 0\<rparr>], w)),
       all_pair_batches = (\<lambda>l w. ([\<lparr>token_ids_1 = 1, attention_mask_1 = 1, token_ids_2 = 2,
                                      attention_mask_2 = 1, pair_labels = 1\<rparr>], w)),
       model_train = (\<lambda>w. w),
       zero_grad = (\<lambda>w. w),
       predict_sentiment = (\<lambda>ids mask w. (ids + mask, w)),
       predict_paraphrase = (\<lambda>ids1 mask1 ids2 mask2 w. (ids1 + ids2, w)),
       predict_similarity = (\<lambda>ids1 mask1 ids2 mask2 w. (ids1 * ids2, w)),
       cross_entropy_sum = (\<lambda>logits b_labels. 4),
       binary_cross_entropy_sum = (\<lambda>logits b_labels. 16),
       cosine_distance_sum = (\<lambda>logits b_labels. 2),
       pc_backward = (\<lambda>losses w. w),
       backward = (\<lambda>loss w. w),
       optimizer_step = Suc,
       new_optimizer = (\<lambda>w. w),
       model_eval_sst = (\<lambda>l w. (if l = Sst_train then 3 / 4 else 1 / 2, w)),
       model_eval_para = (\<lambda>l w. (3 / 4, w)),
       model_eval_sts = (\<lambda>l w. (1 / 4, w)),
       float_add = (\<lambda>x y. x + y),
       float_div = (\<lambda>x y. x / y),
       model_state_dict = (\<lambda>w. w),
       optimizer_state_dict = (\<lambda>w. w),
       random_getstate = (\<lambda>w. [1, w]),
       np_random_get_state = (\<lambda>w. [2, w]),
       torch_get_rng_state = (\<lambda>w. [3, w]) \<rparr>"

definition demo_state :: "(nat, nat, nat) state" where
  "demo_state =
     \<lparr> world = 0, files = Map.empty, stdout = [], opt_calls = [],
       train_loss = 0, num_batches = 0, best_dev_acc = 0, train_acc = 0 \<rparr>"

text \<open>
  A world that counts the epochs (\<^verbatim>\<open>model.train()\<close> is called once in each): both
  dev accuracies are zero and the dev correlation is negative, less so from the second
  epoch on. The float operations are exact on these values.
\<close>

definition low_env :: "(nat, nat, nat, nat) env" where
  "low_env =
     demo_env \<lparr> model_train := Suc,
                optimizer_step := (\<lambda>w. w),
                model_eval_sst := (\<lambda>l w. (0, w)),
                model_eval_para := (\<lambda>l w. (0, w)),
                model_eval_sts := (\<lambda>l w. (if w \<le> 1 then - (3 / 4) else - (3 / 8), w)) \<rparr>"

text \<open>The dev metrics of the epoch summaries printed so far, in order.\<close>

definition summary_dev_accs :: "out_line list \<Rightarrow> real list" where
  "summary_dev_accs out =
     concat (map (\<lambda>l. case l of Text t \<Rightarrow> [] | Epoch_summary e mean_loss tr_acc d \<Rightarrow> [d]) out)"

section \<open>Properties\<close>

subsection \<open>The dispatch of the main program\<close>

text \<open>
  Claim C8. The training-strategy flag selects the procedure: \<^verbatim>\<open>None\<close> runs the
  sequential per-task procedure, \<^verbatim>\<open>"simultaneous"\<close> the summed-loss procedure,
  \<^verbatim>\<open>"pcgrad"\<close> the gradient-surgery procedure, and any other value runs no training
  procedure at all (the program prints a line and goes on to the test procedure).
\<close>

theorem main_dispatch:
  "(train_type a = None \<longrightarrow>
      main a = [Seed_everything (seed a), Train_multitask, Test_multitask]) \<and>
   (train_type a = Some ''simultaneous'' \<longrightarrow>
      main a = [Seed_everything (seed a), Train_simultaneous, Test_multitask]) \<and>
   (train_type a = Some ''pcgrad'' \<longrightarrow>
      main a = [Seed_everything (seed a), Train_PCGrad, Test_multitask]) \<and>
   (\<forall>t. train_type a = Some t \<and> t \<noteq> ''simultaneous'' \<and> t \<noteq> ''pcgrad'' \<longrightarrow>
      main a = [Seed_everything (seed a), Print ''Not training'', Test_multitask] \<and>
      \<not> list_ex is_training (main a))"
  by (simp add: main_def is_training_def)

theorem main_dispatch_witness:
  "main (get_args_default ''m.pt'') = [Seed_everything 11711, Train_multitask, Test_multitask] \<and>
   main ((get_args_default ''m.pt'')\<lparr>train_type := Some ''simultaneous''\<rparr>) =
     [Seed_everything 11711, Train_simultaneous, Test_multitask] \<and>
   main ((get_args_default ''m.pt'')\<lparr>train_type := Some ''pcgrad''\<rparr>) =
     [Seed_everything 11711, Train_PCGrad, Test_multitask] \<and>
   main ((get_args_default ''m.pt'')\<lparr>train_type := Some ''PCGrad''\<rparr>) =
     [Seed_everything 11711, Print ''Not training'', Test_multitask] \<and>
   \<not> list_ex is_training (main ((get_args_default ''m.pt'')\<lparr>train_type := Some ''PCGrad''\<rparr>))"
  using main_dispatch [of "get_args_default ''m.pt''"]
    main_dispatch [of "(get_args_default ''m.pt'')\<lparr>train_type := Some ''simultaneous''\<rparr>"]
    main_dispatch [of "(get_args_default ''m.pt'')\<lparr>train_type := Some ''pcgrad''\<rparr>"]
    main_dispatch [of "(get_args_default ''m.pt'')\<lparr>train_type := Some ''PCGrad''\<rparr>"]
  by (simp add: get_args_default_def is_training_def)

subsection \<open>Model construction\<close>

lemma init_backbone_failure: "MultitaskBERT_init (Inl e) cfg = Inl e"
  by (simp add: MultitaskBERT_init_def)

text \<open>
  Claim C3, as stated: constructing the model with a fine-tune mode other than
  \<^verbatim>\<open>"last-linear-layer"\<close> or \<^verbatim>\<open>"full-model"\<close> fails with a \<open>ConfigurationError\<close>
  and with no other kind of exception. The constructor checks the mode with an
  \<^verbatim>\<open>assert\<close>: with the mode \<^verbatim>\<open>"frozen"\<close> it fails with an \<open>AssertionError\<close>.
\<close>

theorem init_invalid_mode_counterexample:
  "MultitaskBERT_init (Inr demo_backbone)
     (make_config ((get_args_default [])\<lparr>fine_tune_mode := ''frozen''\<rparr>) [0, 1, 2, 3, 4])
     = Inl AssertionError \<and>
   MultitaskBERT_init (Inr demo_backbone)
     (make_config ((get_args_default [])\<lparr>fine_tune_mode := ''frozen''\<rparr>) [0, 1, 2, 3, 4])
     \<noteq> Inl ConfigurationError"
  by (simp add: MultitaskBERT_init_def make_config_def get_args_default_def)

text \<open>
  Claim C3, amended: once the pretrained backbone has been loaded, constructing the model
  with a fine-tune mode other than \<^verbatim>\<open>"last-linear-layer"\<close> or \<^verbatim>\<open>"full-model"\<close> fails
  with an \<open>AssertionError\<close>, for every such mode, every backbone and every other
  setting of the configuration.
\<close>

theorem init_invalid_mode_assertion:
  assumes "cfg_fine_tune_mode cfg \<noteq> ''last-linear-layer''"
      and "cfg_fine_tune_mode cfg \<noteq> ''full-model''"
  shows "MultitaskBERT_init (Inr backbone) cfg = Inl AssertionError"
  using assms by (simp add: MultitaskBERT_init_def)

theorem init_invalid_mode_assertion_witness:
  "cfg_fine_tune_mode
     (make_config ((get_args_default [])\<lparr>fine_tune_mode := ''frozen''\<rparr>) [0, 1, 2, 3, 4])
     \<noteq> ''last-linear-layer'' \<and>
   cfg_fine_tune_mode
     (make_config ((get_args_default [])\<lparr>fine_tune_mode := ''frozen''\<rparr>) [0, 1, 2, 3, 4])
     \<noteq> ''full-model'' \<and>
   MultitaskBERT_init (Inr demo_backbone)
     (make_config ((get_args_default [])\<lparr>fine_tune_mode := ''frozen''\<rparr>) [0, 1, 2, 3, 4])
     = Inl AssertionError"
proof -
  let ?cfg = "make_config ((get_args_default [])\<lparr>fine_tune_mode := ''frozen''\<rparr>) [0, 1, 2, 3, 4]"
  have h1: "cfg_fine_tune_mode ?cfg \<noteq> ''last-linear-layer''"
    by (simp add: make_config_def)
  have h2: "cfg_fine_tune_mode ?cfg \<noteq> ''full-model''"
    by (simp add: make_config_def)
  from init_invalid_mode_assertion [OF h1 h2] h1 h2 show ?thesis by blast
qed

text \<open>
  Claim C5. After construction with the mode \<^verbatim>\<open>"last-linear-layer"\<close> every backbone
  parameter has \<^verbatim>\<open>requires_grad = False\<close> and the six parameters of the task heads are
  trainable; after construction with \<^verbatim>\<open>"full-model"\<close> every backbone parameter has
  \<^verbatim>\<open>requires_grad = True\<close> (and the heads are trainable as well). The backbone is the
  one \<^verbatim>\<open>from_pretrained\<close> returned, whatever its flags were.
\<close>

theorem init_requires_grad:
  "(cfg_fine_tune_mode cfg = ''last-linear-layer'' \<longrightarrow>
      (\<exists>m. MultitaskBERT_init (Inr backbone) cfg = Inr m \<and>
           map p_name (bert m) = map p_name backbone \<and>
           list_all (\<lambda>p. \<not> requires_grad p) (bert m) \<and>
           length (head_parameters m) = 6 \<and>
           list_all requires_grad (head_parameters m))) \<and>
   (cfg_fine_tune_mode cfg = ''full-model'' \<longrightarrow>
      (\<exists>m. MultitaskBERT_init (Inr backbone) cfg = Inr m \<and>
           map p_name (bert m) = map p_name backbone \<and>
           list_all requires_grad (bert m) \<and>
           length (head_parameters m) = 6 \<and>
           list_all requires_grad (head_parameters m)))"
  by (simp add: MultitaskBERT_init_def head_parameters_def Linear_def Bilinear_def
      set_backbone_grad_def list_all_iff)

theorem init_requires_grad_witness:
  "(\<exists>m. MultitaskBERT_init (Inr demo_backbone)
          (make_config (get_args_default []) [0, 1, 2, 3, 4]) = Inr m \<and>
        map p_name (bert m) = map p_name demo_backbone \<and>
        list_all (\<lambda>p. \<not> requires_grad p) (bert m) \<and>
        length (head_parameters m) = 6 \<and>
        list_all requires_grad (head_parameters m)) \<and>
   (\<exists>m. MultitaskBERT_init (Inr demo_backbone)
          (make_config ((get_args_default [])\<lparr>fine_tune_mode := ''full-model''\<rparr>)
             [0, 1, 2, 3, 4]) = Inr m \<and>
        map p_name (bert m) = map p_name demo_backbone \<and>
        list_all requires_grad (bert m) \<and>
        length (head_parameters m) = 6 \<and>
        list_all requires_grad (head_parameters m))"
proof -
  let ?c1 = "make_config (get_args_default []) [0, 1, 2, 3, 4]"
  let ?c2 = "make_config ((get_args_default [])\<lparr>fine_tune_mode := ''full-model''\<rparr>)
               [0, 1, 2, 3, 4]"
  have h1: "cfg_fine_tune_mode ?c1 = ''last-linear-layer''"
    by (simp add: make_config_def get_args_default_def)
  have h2: "cfg_fine_tune_mode ?c2 = ''full-model''"
    by (simp add: make_config_def)
  from init_requires_grad [of ?c1 demo_backbone] h1
    init_requires_grad [of ?c2 demo_backbone] h2
  show ?thesis by blast
qed

subsection \<open>Checkpoints\<close>

text \<open>
  Claim C6. Every checkpoint \<^verbatim>\<open>save_model\<close> writes is a single artifact, the file at
  \<^verbatim>\<open>filepath\<close>, and no other file changes. It bundles exactly seven entries: the model
  parameter state, the optimizer state, the run configuration (\<^verbatim>\<open>args\<close> and
  \<^verbatim>\<open>model_config\<close>) and the states of the system, array-library and tensor-library
  random number generators, each read when the checkpoint is written.
\<close>

theorem save_model_bundle:
  "files (save_model E a cfg path s) = (files s)(path \<mapsto> save_info E a cfg (world s)) \<and>
   world (save_model E a cfg path s) = world s \<and>
   map fst (save_info E a cfg w) =
     [''model'', ''optim'', ''args'', ''model_config'', ''system_rng'', ''numpy_rng'',
      ''torch_rng''] \<and>
   map_of (save_info E a cfg w) ''model'' = Some (Model_state (model_state_dict E w)) \<and>
   map_of (save_info E a cfg w) ''optim'' = Some (Optim_state (optimizer_state_dict E w)) \<and>
   map_of (save_info E a cfg w) ''args'' = Some (Args_namespace a) \<and>
   map_of (save_info E a cfg w) ''model_config'' = Some (Config_namespace cfg) \<and>
   map_of (save_info E a cfg w) ''system_rng'' = Some (Rng_state (random_getstate E w)) \<and>
   map_of (save_info E a cfg w) ''numpy_rng'' = Some (Rng_state (np_random_get_state E w)) \<and>
   map_of (save_info E a cfg w) ''torch_rng'' = Some (Rng_state (torch_get_rng_state E w))"
  by (simp add: save_model_def save_info_def)

subsection \<open>The prediction files\<close>

lemma write_rows_Nil [simp]: "write_rows [] preds = []" "write_rows ids [] = []"
  by (simp_all add: write_rows_def)

lemma write_rows_Cons [simp]:
  "write_rows (p # ids) (s # preds) = p @ '' , '' @ s @ '' '' @ [NL] @ write_rows ids preds"
  by (simp add: write_rows_def write_row_def)

lemma write_rows_zip:
  "write_rows ids preds = concat (map (\<lambda>(p, s). p @ '' , '' @ s @ '' '' @ [NL]) (zip ids preds))"
  by (induction ids preds rule: list_induct2') simp_all

text \<open>
  A file no block opens keeps its content; and when the run returns, the file a block
  names holds what the last block naming it has written.
\<close>

lemma write_all_keeps:
  assumes "\<forall>i < length bs. open_file (fst (bs ! i)) \<noteq> Some f"
  shows "fst (write_all open_file bs fs) f = fs f"
  using assms
proof (induction bs arbitrary: fs)
  case Nil
  show ?case by simp
next
  case (Cons b bs)
  obtain path label ids preds where b: "b = (path, label, ids, preds)"
    by (cases b) auto
  have later: "\<forall>i < length bs. open_file (fst (bs ! i)) \<noteq> Some f"
    using Cons.prems by auto
  have first: "open_file path \<noteq> Some f"
    using Cons.prems b by auto
  show ?case
  proof (cases "open_file path")
    case None
    then show ?thesis
      by (simp add: b write_predictions_def)
  next
    case (Some g)
    with first have "g \<noteq> f" by auto
    then show ?thesis
      using Cons.IH [OF later] Some by (simp add: b write_predictions_def)
  qed
qed

lemma write_all_last:
  assumes "snd (write_all open_file bs fs) = None" and "k < length bs"
  shows "\<exists>j path label ids preds f.
           k \<le> j \<and> j < length bs \<and> bs ! j = (path, label, ids, preds) \<and>
           open_file path = Some f \<and> open_file (fst (bs ! k)) = Some f \<and>
           (\<forall>i. j < i \<and> i < length bs \<longrightarrow> open_file (fst (bs ! i)) \<noteq> Some f) \<and>
           fst (write_all open_file bs fs) f =
             Some (''id '' @ [TAB] @ '' '' @ label @ '' '' @ [NL] @ write_rows ids preds)"
  using assms
proof (induction bs arbitrary: fs k)
  case Nil
  then show ?case by simp
next
  case (Cons b bs)
  obtain path label ids preds where b: "b = (path, label, ids, preds)"
    by (cases b) auto
  obtain f0 where f0: "open_file path = Some f0"
    using Cons.prems(1) by (cases "open_file path") (simp_all add: b write_predictions_def)
  let ?c0 = "''id '' @ [TAB] @ '' '' @ label @ '' '' @ [NL] @ write_rows ids preds"
  let ?fs1 = "fs(f0 \<mapsto> ?c0)"
  have step: "write_all open_file (b # bs) fs = write_all open_file bs ?fs1"
    by (simp add: b write_predictions_def f0)
  have rest: "snd (write_all open_file bs ?fs1) = None"
    using Cons.prems(1) step by simp
  have shift: ?case
    if a1: "k' < length bs"
      and a2: "open_file (fst ((b # bs) ! k)) = open_file (fst (bs ! k'))"
      and a3: "k \<le> Suc k'" for k'
  proof -
    obtain j p l i s f where j: "k' \<le> j" "j < length bs" "bs ! j = (p, l, i, s)"
      "open_file p = Some f" "open_file (fst (bs ! k')) = Some f"
      "\<forall>i. j < i \<and> i < length bs \<longrightarrow> open_file (fst (bs ! i)) \<noteq> Some f"
      "fst (write_all open_file bs ?fs1) f =
         Some (''id '' @ [TAB] @ '' '' @ l @ '' '' @ [NL] @ write_rows i s)"
      using Cons.IH [OF rest a1] by blast
    have later: "\<forall>i. Suc j < i \<and> i < length (b # bs) \<longrightarrow>
        open_file (fst ((b # bs) ! i)) \<noteq> Some f"
    proof (intro allI impI)
      fix i assume i: "Suc j < i \<and> i < length (b # bs)"
      then obtain i' where i': "i = Suc i'" by (cases i) auto
      with i j(6) show "open_file (fst ((b # bs) ! i)) \<noteq> Some f" by simp
    qed
    show ?thesis
      using j a1 a2 a3 later step
      by (intro exI [of _ "Suc j"] exI [of _ p] exI [of _ l] exI [of _ i] exI [of _ s]
          exI [of _ f]) simp
  qed
  show ?case
  proof (cases k)
    case (Suc k')
    with Cons.prems(2) show ?thesis
      by (intro shift [of k']) simp_all
  next
    case 0
    show ?thesis
    proof (cases "\<exists>i < length bs. open_file (fst (bs ! i)) = Some f0")
      case True
      then obtain i where "i < length bs" "open_file (fst (bs ! i)) = Some f0" by blast
      with 0 show ?thesis
        by (intro shift [of i]) (simp_all add: b f0)
    next
      case False
      then have none: "\<forall>i < length bs. open_file (fst (bs ! i)) \<noteq> Some f0" by blast
      have keep: "fst (write_all open_file (b # bs) fs) f0 = Some ?c0"
        using write_all_keeps [OF none, of ?fs1] step by simp
      have later: "\<forall>i. 0 < i \<and> i < length (b # bs) \<longrightarrow>
          open_file (fst ((b # bs) ! i)) \<noteq> Some f0"
      proof (intro allI impI)
        fix i assume i: "0 < i \<and> i < length (b # bs)"
        then obtain i' where "i = Suc i'" by (cases i) auto
        with i none show "open_file (fst ((b # bs) ! i)) \<noteq> Some f0" by simp
      qed
      show ?thesis
        using 0 keep later
        by (intro exI [of _ 0] exI [of _ path] exI [of _ label] exI [of _ ids]
            exI [of _ preds] exI [of _ f0]) (simp add: b f0)
    qed
  qed
qed


lemma prediction_blocks_length [simp]: "length (prediction_blocks a ev) = 6"
  by (simp add: prediction_blocks_def)

lemma prediction_blocks_label:
  assumes "j < 6" and "prediction_blocks a ev ! j = (path, label, ids, preds)"
  shows "label \<in> set [''Predicted_Sentiment'', ''Predicted_Is_Paraphrase'', ''Predicted_Similiary'']"
proof -
  have "(path, label, ids, preds) \<in> set (prediction_blocks a ev)"
    using assms by (metis nth_mem prediction_blocks_length)
  then show ?thesis
    by (auto simp: prediction_blocks_def)
qed

lemma demo_run_returns:
  "snd (test_multitask demo_open (get_args_default []) demo_predictions Map.empty) = None"
  by (simp add: test_multitask_def prediction_blocks_def write_predictions_def
      get_args_default_def demo_open_def)

text \<open>
  Claim C1, as stated: each of the six prediction files begins with a header line of the
  form \<^verbatim>\<open>id , Predicted_<Task>\<close>, comma-separated. The header the code writes has a tab
  where the claim has a comma: with the default paths, the first line of the sentiment
  dev file is \<^verbatim>\<open>id\<close>, a blank, a tab, a blank, \<^verbatim>\<open>Predicted_Sentiment\<close> and a blank;
  it holds no comma.
\<close>

theorem header_comma_counterexample:
  "test_multitask demo_open (get_args_default []) demo_predictions Map.empty =
     ([''predictions/sst-dev-output.csv'' \<mapsto>
         ''id '' @ [TAB] @ '' Predicted_Sentiment '' @ [NL] @
         ''a1 , 3 '' @ [NL] @ ''a2 , 0 '' @ [NL],
       ''predictions/sst-test-output.csv'' \<mapsto>
         ''id '' @ [TAB] @ '' Predicted_Sentiment '' @ [NL] @ ''b1 , 4 '' @ [NL],
       ''predictions/para-dev-output.csv'' \<mapsto>
         ''id '' @ [TAB] @ '' Predicted_Is_Paraphrase '' @ [NL] @ ''c1 , 1.0 '' @ [NL],
       ''predictions/para-test-output.csv'' \<mapsto>
         ''id '' @ [TAB] @ '' Predicted_Is_Paraphrase '' @ [NL] @ ''d1 , 0.0 '' @ [NL],
       ''predictions/sts-dev-output.csv'' \<mapsto>
         ''id '' @ [TAB] @ '' Predicted_Similiary '' @ [NL] @ ''e1 , 2.5 '' @ [NL],
       ''predictions/sts-test-output.csv'' \<mapsto>
         ''id '' @ [TAB] @ '' Predicted_Similiary '' @ [NL]], None) \<and>
   first_line (''id '' @ [TAB] @ '' Predicted_Sentiment '' @ [NL] @
               ''a1 , 3 '' @ [NL] @ ''a2 , 0 '' @ [NL]) =
     ''id '' @ [TAB] @ '' Predicted_Sentiment '' \<and>
   \<not> prefix ''id , Predicted_''
       (''id '' @ [TAB] @ '' Predicted_Sentiment '' @ [NL] @
        ''a1 , 3 '' @ [NL] @ ''a2 , 0 '' @ [NL]) \<and>
   CHR '','' \<notin> set (''id '' @ [TAB] @ '' Predicted_Sentiment '')"
  by (simp add: test_multitask_def prediction_blocks_def write_predictions_def
      get_args_default_def demo_open_def demo_predictions_def first_line_def TAB_def NL_def)

text \<open>
  Claim C1, amended: for every run of \<^verbatim>\<open>test_multitask\<close> in which every output file
  can be opened, each of the six per-task prediction output files begins with a header
  line of the form \<^verbatim>\<open>id\<close>, blank, tab, blank, \<^verbatim>\<open>Predicted_<Task>\<close>, blank
  (tab-separated), followed by one \<^verbatim>\<open>id , prediction\<close> row per example. In the
  statement \<open>k\<close> is any of the six blocks and \<open>f\<close> the file its path names; the header
  and the rows are those of block \<open>j\<close>, the last block whose path names \<open>f\<close>, which is
  \<open>k\<close> itself unless a later path names the same file; the rows pair the ids and the
  predictions of that block in order.
\<close>

theorem test_multitask_files:
  assumes "snd (test_multitask open_file a ev fs) = None" and "k < 6"
  shows "\<exists>j path label ids preds f.
           k \<le> j \<and> j < 6 \<and> prediction_blocks a ev ! j = (path, label, ids, preds) \<and>
           open_file path = Some f \<and> open_file (fst (prediction_blocks a ev ! k)) = Some f \<and>
           (\<forall>i. j < i \<and> i < 6 \<longrightarrow> open_file (fst (prediction_blocks a ev ! i)) \<noteq> Some f) \<and>
           label \<in> set [''Predicted_Sentiment'', ''Predicted_Is_Paraphrase'',
                        ''Predicted_Similiary''] \<and>
           fst (test_multitask open_file a ev fs) f =
             Some (''id '' @ [TAB] @ '' '' @ label @ '' '' @ [NL] @
                   concat (map (\<lambda>(p, s). p @ '' , '' @ s @ '' '' @ [NL]) (zip ids preds)))"
proof -
  obtain j path label ids preds f where j: "k \<le> j" "j < 6"
    "prediction_blocks a ev ! j = (path, label, ids, preds)"
    "open_file path = Some f" "open_file (fst (prediction_blocks a ev ! k)) = Some f"
    "\<forall>i. j < i \<and> i < 6 \<longrightarrow> open_file (fst (prediction_blocks a ev ! i)) \<noteq> Some f"
    "fst (write_all open_file (prediction_blocks a ev) fs) f =
       Some (''id '' @ [TAB] @ '' '' @ label @ '' '' @ [NL] @ write_rows ids preds)"
    using write_all_last [of open_file "prediction_blocks a ev" fs k] assms
    by (auto simp: test_multitask_def)
  have "label \<in> set [''Predicted_Sentiment'', ''Predicted_Is_Paraphrase'', ''Predicted_Similiary'']"
    using j(2,3) by (rule prediction_blocks_label)
  moreover have "fst (test_multitask open_file a ev fs) f =
      Some (''id '' @ [TAB] @ '' '' @ label @ '' '' @ [NL] @
            concat (map (\<lambda>(p, s). p @ '' , '' @ s @ '' '' @ [NL]) (zip ids preds)))"
    using j(7) by (simp add: test_multitask_def write_rows_zip)
  ultimately show ?thesis
    using j(1-6) by blast
qed

theorem test_multitask_files_witness:
  "snd (test_multitask demo_open (get_args_default []) demo_predictions Map.empty) = None \<and>
   (0 :: nat) < 6 \<and>
   (\<exists>j path label ids preds f.
      0 \<le> j \<and> j < 6 \<and>
      prediction_blocks (get_args_default []) demo_predictions ! j = (path, label, ids, preds) \<and>
      demo_open path = Some f \<and>
      demo_open (fst (prediction_blocks (get_args_default []) demo_predictions ! 0)) = Some f \<and>
      (\<forall>i. j < i \<and> i < 6 \<longrightarrow>
         demo_open (fst (prediction_blocks (get_args_default []) demo_predictions ! i)) \<noteq> Some f) \<and>
      label \<in> set [''Predicted_Sentiment'', ''Predicted_Is_Paraphrase'',
                   ''Predicted_Similiary''] \<and>
      fst (test_multitask demo_open (get_args_default []) demo_predictions Map.empty) f =
        Some (''id '' @ [TAB] @ '' '' @ label @ '' '' @ [NL] @
              concat (map (\<lambda>(p, s). p @ '' , '' @ s @ '' '' @ [NL]) (zip ids preds))))"
proof -
  have k: "(0 :: nat) < 6" by simp
  from test_multitask_files [OF demo_run_returns k] demo_run_returns k
  show ?thesis by blast
qed

text \<open>
  Without a later path naming the same file, each file holds the header and the rows of
  its own block.
\<close>

lemma test_multitask_unaliased:
  assumes "snd (test_multitask open_file a ev fs) = None" and "k < 6"
      and "prediction_blocks a ev ! k = (path, label, ids, preds)"
      and "\<forall>i. k < i \<and> i < 6 \<longrightarrow> open_file (fst (prediction_blocks a ev ! i)) \<noteq> open_file path"
  shows "\<exists>f. open_file path = Some f \<and>
           fst (test_multitask open_file a ev fs) f =
             Some (''id '' @ [TAB] @ '' '' @ label @ '' '' @ [NL] @ write_rows ids preds)"
proof -
  obtain j p l i s f where j: "k \<le> j" "j < 6" "prediction_blocks a ev ! j = (p, l, i, s)"
    "open_file p = Some f" "open_file (fst (prediction_blocks a ev ! k)) = Some f"
    "fst (write_all open_file (prediction_blocks a ev) fs) f =
       Some (''id '' @ [TAB] @ '' '' @ l @ '' '' @ [NL] @ write_rows i s)"
    using write_all_last [of open_file "prediction_blocks a ev" fs k] assms(1,2)
    by (auto simp: test_multitask_def)
  have "j = k"
  proof (rule ccontr)
    assume "j \<noteq> k"
    with j(1) have "k < j" by simp
    with assms(4) j(2) have "open_file (fst (prediction_blocks a ev ! j)) \<noteq> open_file path"
      by blast
    with j(3,4,5) assms(3) show False by simp
  qed
  with j assms(3) show ?thesis
    by (simp add: test_multitask_def)
qed

text \<open>
  A path that cannot be opened ends the run with the exception; the files of the blocks
  before it are written, the others are not touched.
\<close>

lemma write_all_refused:
  assumes "n < length bs" and "open_file (fst (bs ! n)) = None"
      and "\<forall>i < n. open_file (fst (bs ! i)) \<noteq> None"
  shows "write_all open_file bs fs = (fst (write_all open_file (take n bs) fs), Some IOError)"
  using assms
proof (induction bs arbitrary: fs n)
  case Nil
  then show ?case by simp
next
  case (Cons b bs)
  obtain path label ids preds where b: "b = (path, label, ids, preds)"
    by (cases b) auto
  show ?case
  proof (cases n)
    case 0
    with Cons.prems(2) show ?thesis
      by (simp add: b write_predictions_def)
  next
    case (Suc m)
    from Cons.prems(3) Suc obtain f where f: "open_file path = Some f"
      using b by (cases "open_file path") force+
    have "\<forall>i < m. open_file (fst (bs ! i)) \<noteq> None"
      using Cons.prems(3) Suc by auto
    with Cons.prems(1,2) Suc show ?thesis
      using Cons.IH [of m] by (simp add: b write_predictions_def f)
  qed
qed

lemma test_multitask_refused_example:
  "test_multitask demo_open ((get_args_default [])\<lparr>sst_test_out := []\<rparr>)
     demo_predictions Map.empty =
     ([''predictions/sst-dev-output.csv'' \<mapsto>
         ''id '' @ [TAB] @ '' Predicted_Sentiment '' @ [NL] @
         ''a1 , 3 '' @ [NL] @ ''a2 , 0 '' @ [NL]], Some IOError)"
  by (simp add: test_multitask_def prediction_blocks_def write_predictions_def
      get_args_default_def demo_open_def demo_predictions_def)


text \<open>Two paths naming one file: the file holds the rows of the later block.\<close>

lemma test_multitask_alias_example:
  "fst (test_multitask demo_open
          ((get_args_default [])\<lparr>sst_dev_out := ''out.csv'', sst_test_out := ''./out.csv''\<rparr>)
          demo_predictions Map.empty) ''out.csv'' =
     Some (''id '' @ [TAB] @ '' Predicted_Sentiment '' @ [NL] @ ''b1 , 4 '' @ [NL])"
  by (simp add: test_multitask_def prediction_blocks_def write_predictions_def
      get_args_default_def demo_open_def demo_predictions_def)

subsection \<open>The loss wrappers and the training steps\<close>

lemma sst_loss_three:
  "sst_loss E [Tensor logits, Tensor b_labels, Namespace a] =
     Inr (cross_entropy_sum E logits b_labels / real_of_int (sst_batch_size a))"
  by (simp add: sst_loss_def bind3_def)

lemma para_loss_three:
  "para_loss E [Tensor logits, Tensor b_labels, Namespace a] =
     Inr (binary_cross_entropy_sum E logits b_labels / real_of_int (para_batch_size a))"
  by (simp add: para_loss_def bind3_def)

lemma sts_loss_three:
  "sts_loss E [Tensor logits, Tensor b_labels, Namespace a] =
     Inr (cosine_distance_sum E logits b_labels / real_of_int (sts_batch_size a))"
  by (simp add: sts_loss_def bind3_def)

lemma sts_loss_two: "sts_loss E [x, y] = Inl TypeError"
  by (simp add: sts_loss_def bind3_def)

text \<open>The three forward passes of a joint step always return: each loss gets its three arguments.\<close>

lemma forward_losses_returns:
  "\<exists>g1 g2 g3 l1 l2 l3 w'.
     forward_losses E a batch_sst batch_para batch_sts w = Inr ((l1, l2, l3), w') \<and>
     sst_loss E [Tensor g1, Tensor (labels batch_sst), Namespace a] = Inr l1 \<and>
     para_loss E [Tensor g2, Tensor (pair_labels batch_para), Namespace a] = Inr l2 \<and>
     sts_loss E [Tensor g3, Tensor (pair_labels batch_sts), Namespace a] = Inr l3"
proof -
  obtain g1 w1 where
    p1: "predict_sentiment E (token_ids batch_sst) (attention_mask batch_sst) w = (g1, w1)"
    by (metis prod.exhaust)
  obtain g2 w2 where
    p2: "predict_paraphrase E (token_ids_1 batch_para) (attention_mask_1 batch_para)
           (token_ids_2 batch_para) (attention_mask_2 batch_para) w1 = (g2, w2)"
    by (metis prod.exhaust)
  obtain g3 w3 where
    p3: "predict_similarity E (token_ids_1 batch_sts) (attention_mask_1 batch_sts)
           (token_ids_2 batch_sts) (attention_mask_2 batch_sts) w2 = (g3, w3)"
    by (metis prod.exhaust)
  obtain l1 where l1: "sst_loss E [Tensor g1, Tensor (labels batch_sst), Namespace a] = Inr l1"
    by (simp add: sst_loss_three)
  obtain l2 where
    l2: "para_loss E [Tensor g2, Tensor (pair_labels batch_para), Namespace a] = Inr l2"
    by (simp add: para_loss_three)
  obtain l3 where
    l3: "sts_loss E [Tensor g3, Tensor (pair_labels batch_sts), Namespace a] = Inr l3"
    by (simp add: sts_loss_three)
  have "forward_losses E a batch_sst batch_para batch_sts w = Inr ((l1, l2, l3), w3)"
    by (simp add: forward_losses_def p1 p2 p3 l1 l2 l3)
  with l1 l2 l3 show ?thesis by blast
qed

lemma train_PCGrad_step_expand:
  assumes "draw_batches E (world s) = ((batch_sst, batch_para, batch_sts), w)"
      and "forward_losses E a batch_sst batch_para batch_sts (zero_grad E w) =
             Inr ((l1, l2, l3), w1)"
  shows "train_PCGrad_step E a s =
       Inr (s\<lparr> world := optimizer_step E (pc_backward E [l1, l2, l3] w1),
                opt_calls := opt_calls s @ [Zero_grad, Pc_backward [l1, l2, l3], Optimizer_step],
                train_loss := train_loss s + (l1 + l2 + l3),
                num_batches := num_batches s + 1 \<rparr>)"
  by (simp add: train_PCGrad_step_def assms Let_def)

lemma train_simultaneous_step_expand:
  assumes "draw_batches E (world s) = ((batch_sst, batch_para, batch_sts), w)"
      and "forward_losses E a batch_sst batch_para batch_sts (zero_grad E w) =
             Inr ((l1, l2, l3), w1)"
  shows "train_simultaneous_step E a s =
       Inr (s\<lparr> world := optimizer_step E (backward E (l1 + l2 + l3) w1),
                opt_calls := opt_calls s @ [Zero_grad, Loss_backward (l1 + l2 + l3), Optimizer_step],
                train_loss := train_loss s + (l1 + l2 + l3),
                num_batches := num_batches s + 1 \<rparr>)"
  by (simp add: train_simultaneous_step_def assms Let_def)

text \<open>
  Claim C7. Every training step of the PCGrad strategy returns, and performs in this
  order: \<^verbatim>\<open>zero_grad\<close>, then \<^verbatim>\<open>pc_backward\<close> on the list of the three per-task losses
  (sentiment, paraphrase, similarity, each the value its loss wrapper returned after
  \<^verbatim>\<open>zero_grad\<close>), then \<^verbatim>\<open>step\<close>. These three are all its optimizer calls: there is no
  backward pass of a combined loss. The training loss grows by the unweighted sum of the
  three losses.
\<close>

theorem pcgrad_step_order:
  "\<exists>batch_sst batch_para batch_sts w g1 g2 g3 l1 l2 l3 w1.
     draw_batches E (world s) = ((batch_sst, batch_para, batch_sts), w) \<and>
     forward_losses E a batch_sst batch_para batch_sts (zero_grad E w) = Inr ((l1, l2, l3), w1) \<and>
     sst_loss E [Tensor g1, Tensor (labels batch_sst), Namespace a] = Inr l1 \<and>
     para_loss E [Tensor g2, Tensor (pair_labels batch_para), Namespace a] = Inr l2 \<and>
     sts_loss E [Tensor g3, Tensor (pair_labels batch_sts), Namespace a] = Inr l3 \<and>
     train_PCGrad_step E a s =
       Inr (s\<lparr> world := optimizer_step E (pc_backward E [l1, l2, l3] w1),
                opt_calls := opt_calls s @ [Zero_grad, Pc_backward [l1, l2, l3], Optimizer_step],
                train_loss := train_loss s + (l1 + l2 + l3),
                num_batches := num_batches s + 1 \<rparr>)"
proof -
  obtain batch_sst batch_para batch_sts w
    where d: "draw_batches E (world s) = ((batch_sst, batch_para, batch_sts), w)"
    by (metis prod.exhaust)
  obtain g1 g2 g3 l1 l2 l3 w1 where
    f: "forward_losses E a batch_sst batch_para batch_sts (zero_grad E w) = Inr ((l1, l2, l3), w1)"
    and l: "sst_loss E [Tensor g1, Tensor (labels batch_sst), Namespace a] = Inr l1"
      "para_loss E [Tensor g2, Tensor (pair_labels batch_para), Namespace a] = Inr l2"
      "sts_loss E [Tensor g3, Tensor (pair_labels batch_sts), Namespace a] = Inr l3"
    using forward_losses_returns [of E a batch_sst batch_para batch_sts "zero_grad E w"]
    by (elim exE conjE)
  from train_PCGrad_step_expand [OF d f] d f l show ?thesis by blast
qed

text \<open>
  Any number of steps in a row: the optimizer calls are the three calls of each step, one
  step after the other, and the training loss grows by the sum of all the losses.
\<close>

lemma pcgrad_steps_calls:
  "\<exists>s' ls. repeat n (train_PCGrad_step E a) s = Inr s' \<and> length ls = n \<and>
      opt_calls s' = opt_calls s @
        concat (map (\<lambda>l. [Zero_grad, Pc_backward l, Optimizer_step]) ls) \<and>
      train_loss s' = train_loss s + sum_list (map sum_list ls)"
proof (induction n arbitrary: s)
  case 0
  show ?case by simp
next
  case (Suc n)
  obtain batch_sst batch_para batch_sts w
    where d: "draw_batches E (world s) = ((batch_sst, batch_para, batch_sts), w)"
    by (metis prod.exhaust)
  obtain l1 l2 l3 w1 where
    f: "forward_losses E a batch_sst batch_para batch_sts (zero_grad E w) = Inr ((l1, l2, l3), w1)"
    using forward_losses_returns [of E a batch_sst batch_para batch_sts "zero_grad E w"]
    by (elim exE conjE)
  let ?s1 = "s\<lparr> world := optimizer_step E (pc_backward E [l1, l2, l3] w1),
                opt_calls := opt_calls s @ [Zero_grad, Pc_backward [l1, l2, l3], Optimizer_step],
                train_loss := train_loss s + (l1 + l2 + l3),
                num_batches := num_batches s + 1 \<rparr>"
  have 1: "train_PCGrad_step E a s = Inr ?s1"
    by (rule train_PCGrad_step_expand [OF d f])
  obtain s' ls where s': "repeat n (train_PCGrad_step E a) ?s1 = Inr s'" "length ls = n"
    "opt_calls s' = opt_calls ?s1 @
        concat (map (\<lambda>l. [Zero_grad, Pc_backward l, Optimizer_step]) ls)"
    "train_loss s' = train_loss ?s1 + sum_list (map sum_list ls)"
    using Suc.IH [of ?s1] by blast
  show ?case
    using 1 s' by (intro exI [of _ s'] exI [of _ "[l1, l2, l3] # ls"]) simp
qed


subsection \<open>Keeping the best checkpoint\<close>

text \<open>
  A joint step always returns and leaves the files, the output and the best dev metric
  alone; so do a thousand of them.
\<close>

lemma joint_step_returns:
  assumes "step = train_PCGrad_step E a \<or> step = train_simultaneous_step E a"
  shows "\<exists>s'. step s = Inr s' \<and> num_batches s' = num_batches s + 1 \<and>
              files s' = files s \<and> stdout s' = stdout s \<and>
              best_dev_acc s' = best_dev_acc s \<and> train_acc s' = train_acc s"
proof -
  obtain batch_sst batch_para batch_sts w
    where d: "draw_batches E (world s) = ((batch_sst, batch_para, batch_sts), w)"
    by (metis prod.exhaust)
  obtain l1 l2 l3 w1 where
    f: "forward_losses E a batch_sst batch_para batch_sts (zero_grad E w) = Inr ((l1, l2, l3), w1)"
    using forward_losses_returns [of E a batch_sst batch_para batch_sts "zero_grad E w"]
    by (elim exE conjE)
  from assms show ?thesis
  proof
    assume "step = train_PCGrad_step E a"
    then show ?thesis
      by (simp add: train_PCGrad_step_expand [OF d f])
  next
    assume "step = train_simultaneous_step E a"
    then show ?thesis
      by (simp add: train_simultaneous_step_expand [OF d f])
  qed
qed

lemma repeat_returns:
  assumes "\<And>s. \<exists>s'. step s = Inr s' \<and> num_batches s' = num_batches s + 1 \<and>
              files s' = files s \<and> stdout s' = stdout s \<and>
              best_dev_acc s' = best_dev_acc s \<and> train_acc s' = train_acc s"
  shows "\<exists>s'. repeat n step s = Inr s' \<and> num_batches s' = num_batches s + n \<and>
              files s' = files s \<and> stdout s' = stdout s \<and>
              best_dev_acc s' = best_dev_acc s \<and> train_acc s' = train_acc s"
proof (induction n arbitrary: s)
  case 0
  show ?case by simp
next
  case (Suc n)
  obtain s1 where s1: "step s = Inr s1" "num_batches s1 = num_batches s + 1"
    "files s1 = files s" "stdout s1 = stdout s" "best_dev_acc s1 = best_dev_acc s"
    "train_acc s1 = train_acc s"
    using assms [of s] by blast
  obtain s2 where s2: "repeat n step s1 = Inr s2" "num_batches s2 = num_batches s1 + n"
    "files s2 = files s1" "stdout s2 = stdout s1" "best_dev_acc s2 = best_dev_acc s1"
    "train_acc s2 = train_acc s1"
    using Suc.IH [of s1] by blast
  show ?case
    by (simp add: s1 s2)
qed

lemma end_of_epoch_expand:
  assumes "num_batches s \<noteq> 0"
      and "model_eval_sst E Sst_train (world s) = (tr, w1)"
      and "model_eval_sst E Sst_dev w1 = (d1, w2)"
      and "model_eval_para E Para_dev w2 = (d2, w3)"
      and "model_eval_sts E Sts_dev w3 = (d3, w)"
  shows "end_of_epoch E a cfg epoch s =
           Inr (keep_best E a cfg epoch (float_div E (float_add E (float_add E d1 d2) d3) 3)
                  (s\<lparr> world := w, train_loss := train_loss s / real (num_batches s),
                      train_acc := tr \<rparr>))"
  using assms by (simp add: end_of_epoch_def evaluate_all_def)

lemma train_epoch_expand:
  assumes "step = train_PCGrad_step E a \<or> step = train_simultaneous_step E a"
  shows "\<exists>s1 tr w1 d1 w2 d2 w3 d3 w.
     repeat 1000 step (s\<lparr> world := model_train E (world s), train_loss := 0, num_batches := 0 \<rparr>)
       = Inr s1 \<and>
     files s1 = files s \<and> stdout s1 = stdout s \<and> best_dev_acc s1 = best_dev_acc s \<and>
     model_eval_sst E Sst_train (world s1) = (tr, w1) \<and>
     model_eval_sst E Sst_dev w1 = (d1, w2) \<and>
     model_eval_para E Para_dev w2 = (d2, w3) \<and>
     model_eval_sts E Sts_dev w3 = (d3, w) \<and>
     train_epoch step E a cfg epoch s =
       Inr (keep_best E a cfg epoch (float_div E (float_add E (float_add E d1 d2) d3) 3)
              (s1\<lparr> world := w, train_loss := train_loss s1 / 1000, train_acc := tr \<rparr>))"
proof -
  let ?s0 = "s\<lparr> world := model_train E (world s), train_loss := 0, num_batches := 0 \<rparr>"
  obtain s1 where s1: "repeat 1000 step ?s0 = Inr s1" "num_batches s1 = num_batches ?s0 + 1000"
    "files s1 = files ?s0" "stdout s1 = stdout ?s0" "best_dev_acc s1 = best_dev_acc ?s0"
    using repeat_returns [of step 1000 ?s0, OF joint_step_returns [OF assms]] by blast
  obtain tr w1 where e1: "model_eval_sst E Sst_train (world s1) = (tr, w1)"
    by (metis prod.exhaust)
  obtain d1 w2 where e2: "model_eval_sst E Sst_dev w1 = (d1, w2)"
    by (metis prod.exhaust)
  obtain d2 w3 where e3: "model_eval_para E Para_dev w2 = (d2, w3)"
    by (metis prod.exhaust)
  obtain d3 w where e4: "model_eval_sts E Sts_dev w3 = (d3, w)"
    by (metis prod.exhaust)
  have n: "num_batches s1 = 1000" "num_batches s1 \<noteq> 0"
    using s1(2) by simp_all
  have "train_epoch step E a cfg epoch s =
       Inr (keep_best E a cfg epoch (float_div E (float_add E (float_add E d1 d2) d3) 3)
              (s1\<lparr> world := w, train_loss := train_loss s1 / 1000, train_acc := tr \<rparr>))"
    using n(1) by (simp add: train_epoch_def s1(1) end_of_epoch_expand [OF n(2) e1 e2 e3 e4])
  with s1 e1 e2 e3 e4 show ?thesis by auto
qed

lemma summary_dev_accs_append [simp]:
  "summary_dev_accs (xs @ ys) = summary_dev_accs xs @ summary_dev_accs ys"
  by (simp add: summary_dev_accs_def)

lemma summary_dev_accs_simps [simp]:
  "summary_dev_accs [] = []"
  "summary_dev_accs (Text t # out) = summary_dev_accs out"
  "summary_dev_accs (Epoch_summary e ml ta d # out) = d # summary_dev_accs out"
  by (simp_all add: summary_dev_accs_def)

lemma train_epoch_best:
  assumes "step = train_PCGrad_step E a \<or> step = train_simultaneous_step E a"
  shows "\<exists>s' d. train_epoch step E a cfg epoch s = Inr s' \<and>
           best_dev_acc s' = max (best_dev_acc s) d \<and>
           summary_dev_accs (stdout s') = summary_dev_accs (stdout s) @ [d]"
proof -
  obtain s1 tr d1 d2 d3 w where
    p: "stdout s1 = stdout s" "best_dev_acc s1 = best_dev_acc s"
    and t: "train_epoch step E a cfg epoch s =
       Inr (keep_best E a cfg epoch (float_div E (float_add E (float_add E d1 d2) d3) 3)
              (s1\<lparr> world := w, train_loss := train_loss s1 / 1000, train_acc := tr \<rparr>))"
    using train_epoch_expand [OF assms, of s cfg epoch] by blast
  let ?d = "float_div E (float_add E (float_add E d1 d2) d3) 3"
  let ?s' = "keep_best E a cfg epoch ?d
               (s1\<lparr> world := w, train_loss := train_loss s1 / 1000, train_acc := tr \<rparr>)"
  have "best_dev_acc ?s' = max (best_dev_acc s) ?d"
    using p by (simp add: keep_best_def save_model_def Let_def max_def)
  moreover have "summary_dev_accs (stdout ?s') = summary_dev_accs (stdout s) @ [?d]"
    using p by (simp add: keep_best_def save_model_def Let_def)
  ultimately show ?thesis
    using t by blast
qed

lemma Max_cons_max: "Max (set (b # d # ds)) = Max (set (max b d # ds))"
  for b :: real
  by (cases "ds = []") (simp_all add: max.assoc)

lemma for_each_snoc:
  "for_each body (xs @ [x]) s =
     (case for_each body xs s of Inl e \<Rightarrow> Inl e | Inr s' \<Rightarrow> body x s')"
  by (induction xs arbitrary: s) (simp_all split: sum.splits)

lemma epochs_best:
  assumes "step = train_PCGrad_step E a \<or> step = train_simultaneous_step E a"
  shows "\<exists>s' ds. for_each (train_epoch step E a cfg) es s = Inr s' \<and>
           length ds = length es \<and>
           summary_dev_accs (stdout s') = summary_dev_accs (stdout s) @ ds \<and>
           best_dev_acc s' = Max (set (best_dev_acc s # ds))"
proof (induction es arbitrary: s)
  case Nil
  show ?case by simp
next
  case (Cons e es)
  obtain s1 d where s1: "train_epoch step E a cfg e s = Inr s1"
    "best_dev_acc s1 = max (best_dev_acc s) d"
    "summary_dev_accs (stdout s1) = summary_dev_accs (stdout s) @ [d]"
    using train_epoch_best [OF assms, of cfg e s] by blast
  obtain s' ds where s': "for_each (train_epoch step E a cfg) es s1 = Inr s'"
    "length ds = length es"
    "summary_dev_accs (stdout s') = summary_dev_accs (stdout s1) @ ds"
    "best_dev_acc s' = Max (set (best_dev_acc s1 # ds))"
    using Cons.IH [of s1] by blast
  have "best_dev_acc s' = Max (set (best_dev_acc s # d # ds))"
    using s'(4) s1(2) by (simp only: Max_cons_max)
  with s1 s' show ?case
    by (intro exI [of _ s'] exI [of _ "d # ds"]) simp
qed

text \<open>
  A run in which the dev mean is negative in both epochs and greater in the second: no
  checkpoint is written.
\<close>

lemma repeat_keeps:
  assumes "\<And>s s'. step s = Inr s' \<Longrightarrow> f s' = f s"
  shows "repeat n step s = Inr s' \<Longrightarrow> f s' = f s"
proof (induction n arbitrary: s)
  case 0
  then show ?case by simp
next
  case (Suc n)
  then obtain s1 where s1: "step s = Inr s1" "repeat n step s1 = Inr s'"
    by (auto split: sum.splits)
  from Suc.IH [OF s1(2)] assms [OF s1(1)] show ?case by simp
qed

lemma low_env_step_world:
  assumes "train_PCGrad_step low_env a s = Inr s'"
  shows "world s' = world s"
  using assms
  by (auto simp: train_PCGrad_step_def draw_batches_def forward_losses_def low_env_def
      demo_env_def sst_loss_three para_loss_three sts_loss_three Let_def)

lemma low_env_epoch:
  assumes "best_dev_acc s = 0" and "files s = Map.empty"
  shows "\<exists>s'. train_epoch (train_PCGrad_step low_env a) low_env a cfg e s = Inr s' \<and>
           world s' = Suc (world s) \<and> best_dev_acc s' = 0 \<and> files s' = Map.empty \<and>
           summary_dev_accs (stdout s') =
             summary_dev_accs (stdout s) @ [if world s = 0 then - (1 / 4) else - (1 / 8)]"
proof -
  let ?step = "train_PCGrad_step low_env a"
  have h: "?step = train_PCGrad_step low_env a \<or> ?step = train_simultaneous_step low_env a"
    by simp
  obtain s1 tr w1 d1 w2 d2 w3 d3 w where
    r: "repeat 1000 ?step
          (s\<lparr> world := model_train low_env (world s), train_loss := 0, num_batches := 0 \<rparr>)
        = Inr s1"
    and p: "files s1 = files s" "stdout s1 = stdout s" "best_dev_acc s1 = best_dev_acc s"
    and e: "model_eval_sst low_env Sst_train (world s1) = (tr, w1)"
      "model_eval_sst low_env Sst_dev w1 = (d1, w2)"
      "model_eval_para low_env Para_dev w2 = (d2, w3)"
      "model_eval_sts low_env Sts_dev w3 = (d3, w)"
    and t: "train_epoch ?step low_env a cfg e s =
       Inr (keep_best low_env a cfg e
              (float_div low_env (float_add low_env (float_add low_env d1 d2) d3) 3)
              (s1\<lparr> world := w, train_loss := train_loss s1 / 1000, train_acc := tr \<rparr>))"
    using train_epoch_expand [OF h, of s cfg e] by (elim exE conjE)
  have "world s1 = model_train low_env (world s)"
    using repeat_keeps [of ?step world, OF low_env_step_world r] by simp
  then have w1: "world s1 = Suc (world s)"
    by (simp add: low_env_def)
  have v: "d1 = 0" "d2 = 0" "d3 = (if world s = 0 then - (3 / 4) else - (3 / 8))"
    "w = Suc (world s)"
    using e w1 by (auto simp: low_env_def demo_env_def)
  have d: "float_div low_env (float_add low_env (float_add low_env d1 d2) d3) 3 =
      (if world s = 0 then - (1 / 4) else - (1 / 8))"
    using v by (simp add: low_env_def demo_env_def)
  show ?thesis
    unfolding t d using p assms v(4)
    by (simp add: keep_best_def save_model_def Let_def)
qed

lemma low_env_run:
  "\<exists>s'. train_PCGrad low_env ((get_args_default ''m.pt'')\<lparr>epochs := 2\<rparr>) cfg demo_state = Inr s' \<and>
        summary_dev_accs (stdout s') = [- (1 / 4), - (1 / 8)] \<and>
        best_dev_acc s' = 0 \<and> files s' = Map.empty"
proof -
  let ?a = "(get_args_default ''m.pt'')\<lparr>epochs := 2\<rparr>"
  let ?s0 = "demo_state\<lparr> best_dev_acc := 0,
                stdout := stdout demo_state @ [Text ''Training with PCGrad''] \<rparr>"
  have u: "[0 ..< epochs ?a] = [0, Suc 0]"
    by (simp add: upt_rec)
  obtain s1 where s1: "train_epoch (train_PCGrad_step low_env ?a) low_env ?a cfg 0 ?s0 = Inr s1"
    "world s1 = Suc (world ?s0)" "best_dev_acc s1 = 0" "files s1 = Map.empty"
    "summary_dev_accs (stdout s1) =
       summary_dev_accs (stdout ?s0) @ [if world ?s0 = 0 then - (1 / 4) else - (1 / 8)]"
    using low_env_epoch [of ?s0 ?a cfg 0] by (auto simp: demo_state_def)
  obtain s2 where
    s2: "train_epoch (train_PCGrad_step low_env ?a) low_env ?a cfg (Suc 0) s1 = Inr s2"
    "best_dev_acc s2 = 0" "files s2 = Map.empty"
    "summary_dev_accs (stdout s2) =
       summary_dev_accs (stdout s1) @ [if world s1 = 0 then - (1 / 4) else - (1 / 8)]"
    using low_env_epoch [OF s1(3,4), of ?a cfg "Suc 0"] by blast
  have "train_PCGrad low_env ?a cfg demo_state = Inr s2"
    unfolding train_PCGrad_def u by (simp add: s1(1) s2(1))
  moreover have "summary_dev_accs (stdout s2) = [- (1 / 4), - (1 / 8)]"
    using s2(4) s1(5,2) by (simp add: demo_state_def)
  ultimately show ?thesis
    using s2(2,3) by blast
qed

text \<open>
  Claim C2, as stated: in every epoch the checkpoint is saved if and only if the averaged
  dev metric strictly exceeds the best value seen so far in that run. In the run below
  (two epochs of the PCGrad strategy) the averaged dev metric is \<open>-1/4\<close> in the first
  epoch and \<open>-1/8\<close> in the second: the second strictly exceeds the best value seen so
  far, and yet the run ends without any checkpoint file.
\<close>

theorem best_so_far_counterexample:
  "\<not> isl (train_PCGrad low_env ((get_args_default ''m.pt'')\<lparr>epochs := 2\<rparr>)
            (make_config (get_args_default ''m.pt'') [0, 1, 2, 3, 4]) demo_state) \<and>
   summary_dev_accs (stdout (projr
     (train_PCGrad low_env ((get_args_default ''m.pt'')\<lparr>epochs := 2\<rparr>)
        (make_config (get_args_default ''m.pt'') [0, 1, 2, 3, 4]) demo_state))) =
     [- (1 / 4), - (1 / 8)] \<and>
   - (1 / 4) < (- (1 / 8) :: real) \<and>
   files (projr
     (train_PCGrad low_env ((get_args_default ''m.pt'')\<lparr>epochs := 2\<rparr>)
        (make_config (get_args_default ''m.pt'') [0, 1, 2, 3, 4]) demo_state)) = Map.empty"
  using low_env_run [of "make_config (get_args_default ''m.pt'') [0, 1, 2, 3, 4]"]
  by auto

text \<open>
  Claim C2, amended: in every training epoch of the PCGrad and of the simultaneous
  strategy the checkpoint is saved if and only if the averaged dev metric of the epoch
  (the float mean \<^verbatim>\<open>(sst + para + sts) / 3\<close> of the three per-task dev metrics)
  strictly exceeds the greater of zero and the best averaged dev metric of the earlier
  epochs of that run, which is the value of \<^verbatim>\<open>best_dev_acc\<close>; otherwise saving is
  silently skipped and the previously saved checkpoint is left unchanged. In the
  statement \<open>s0\<close> is the state in which the epoch loop starts
  (\<^verbatim>\<open>best_dev_acc = 0\<close>), \<open>k\<close> the epoch, \<open>sk\<close> the state before it and \<open>ds\<close> the
  averaged dev metrics of the \<open>k\<close> epochs before it, as their summary lines show
  them; the three dev metrics are what the three evaluation functions return on the dev
  loaders after the thousand steps of the epoch.
\<close>

theorem checkpoint_iff_improved:
  assumes "step = train_PCGrad_step E a \<or> step = train_simultaneous_step E a"
      and "best_dev_acc s0 = 0"
  shows "\<exists>sk ds s1 tr w1 d1 w2 d2 w3 d3 w s'.
     for_each (train_epoch step E a cfg) [0 ..< k] s0 = Inr sk \<and>
     length ds = k \<and>
     summary_dev_accs (stdout sk) = summary_dev_accs (stdout s0) @ ds \<and>
     best_dev_acc sk = Max (set (0 # ds)) \<and>
     repeat 1000 step (sk\<lparr> world := model_train E (world sk), train_loss := 0, num_batches := 0 \<rparr>)
       = Inr s1 \<and>
     model_eval_sst E Sst_train (world s1) = (tr, w1) \<and>
     model_eval_sst E Sst_dev w1 = (d1, w2) \<and>
     model_eval_para E Para_dev w2 = (d2, w3) \<and>
     model_eval_sts E Sts_dev w3 = (d3, w) \<and>
     train_epoch step E a cfg k sk = Inr s' \<and>
     for_each (train_epoch step E a cfg) [0 ..< Suc k] s0 = Inr s' \<and>
     world s' = w \<and>
     (if float_div E (float_add E (float_add E d1 d2) d3) 3 > Max (set (0 # ds))
      then files s' = (files sk)(filepath a \<mapsto> save_info E a cfg w) \<and>
           best_dev_acc s' = float_div E (float_add E (float_add E d1 d2) d3) 3 \<and>
           stdout s' = stdout sk @
             [Text (''save the model to '' @ filepath a),
              Epoch_summary k (train_loss s1 / 1000) tr
                (float_div E (float_add E (float_add E d1 d2) d3) 3)]
      else files s' = files sk \<and>
           best_dev_acc s' = best_dev_acc sk \<and>
           stdout s' = stdout sk @
             [Epoch_summary k (train_loss s1 / 1000) tr
                (float_div E (float_add E (float_add E d1 d2) d3) 3)])"
proof -
  obtain sk ds where sk: "for_each (train_epoch step E a cfg) [0 ..< k] s0 = Inr sk"
    "length ds = length [0 ..< k]"
    "summary_dev_accs (stdout sk) = summary_dev_accs (stdout s0) @ ds"
    "best_dev_acc sk = Max (set (best_dev_acc s0 # ds))"
    using epochs_best [OF assms(1), of cfg "[0 ..< k]" s0] by blast
  have b: "best_dev_acc sk = Max (set (0 # ds))"
    using sk(4) assms(2) by simp
  obtain s1 tr w1 d1 w2 d2 w3 d3 w where
    r: "repeat 1000 step
          (sk\<lparr> world := model_train E (world sk), train_loss := 0, num_batches := 0 \<rparr>) = Inr s1"
    and p: "files s1 = files sk" "stdout s1 = stdout sk" "best_dev_acc s1 = best_dev_acc sk"
    and e: "model_eval_sst E Sst_train (world s1) = (tr, w1)"
      "model_eval_sst E Sst_dev w1 = (d1, w2)"
      "model_eval_para E Para_dev w2 = (d2, w3)"
      "model_eval_sts E Sts_dev w3 = (d3, w)"
    and t: "train_epoch step E a cfg k sk =
       Inr (keep_best E a cfg k (float_div E (float_add E (float_add E d1 d2) d3) 3)
              (s1\<lparr> world := w, train_loss := train_loss s1 / 1000, train_acc := tr \<rparr>))"
    using train_epoch_expand [OF assms(1), of sk cfg k] by (elim exE conjE)
  let ?d = "float_div E (float_add E (float_add E d1 d2) d3) 3"
  let ?s' = "keep_best E a cfg k ?d
               (s1\<lparr> world := w, train_loss := train_loss s1 / 1000, train_acc := tr \<rparr>)"
  have u: "for_each (train_epoch step E a cfg) [0 ..< Suc k] s0 = Inr ?s'"
    by (simp add: for_each_snoc sk(1) t)
  have "world ?s' = w"
    by (simp add: keep_best_def save_model_def Let_def)
  moreover have "(if ?d > Max (set (0 # ds))
      then files ?s' = (files sk)(filepath a \<mapsto> save_info E a cfg w) \<and>
           best_dev_acc ?s' = ?d \<and>
           stdout ?s' = stdout sk @
             [Text (''save the model to '' @ filepath a),
              Epoch_summary k (train_loss s1 / 1000) tr ?d]
      else files ?s' = files sk \<and>
           best_dev_acc ?s' = best_dev_acc sk \<and>
           stdout ?s' = stdout sk @ [Epoch_summary k (train_loss s1 / 1000) tr ?d])"
    using p b by (simp add: keep_best_def save_model_def Let_def)
  moreover have "length ds = k"
    using sk(2) by simp
  ultimately show ?thesis
    using sk(1,3) b r e t u by blast
qed


theorem checkpoint_iff_improved_witness:
  "(train_PCGrad_step demo_env (get_args_default ''m.pt'') =
      train_PCGrad_step demo_env (get_args_default ''m.pt'') \<or>
    train_PCGrad_step demo_env (get_args_default ''m.pt'') =
      train_simultaneous_step demo_env (get_args_default ''m.pt'')) \<and>
   best_dev_acc demo_state = 0 \<and>
   (\<exists>s'. for_each
            (train_epoch (train_PCGrad_step demo_env (get_args_default ''m.pt'')) demo_env
               (get_args_default ''m.pt'') (make_config (get_args_default ''m.pt'') [0, 1, 2, 3, 4]))
            [0 ..< Suc 0] demo_state = Inr s' \<and>
         best_dev_acc s' = 1 / 2 \<and>
         files s' = [''m.pt'' \<mapsto> save_info demo_env (get_args_default ''m.pt'')
                       (make_config (get_args_default ''m.pt'') [0, 1, 2, 3, 4]) (world s')])"
proof -
  let ?a = "get_args_default ''m.pt''"
  let ?cfg = "make_config ?a [0, 1, 2, 3, 4]"
  let ?step = "train_PCGrad_step demo_env ?a"
  have h: "?step = train_PCGrad_step demo_env ?a \<or> ?step = train_simultaneous_step demo_env ?a"
    by simp
  have z: "best_dev_acc demo_state = 0"
    by (simp add: demo_state_def)
  have e: "model_eval_sst demo_env Sst_train w = (3 / 4, w)"
    "model_eval_sst demo_env Sst_dev w = (1 / 2, w)"
    "model_eval_para demo_env Para_dev w = (3 / 4, w)"
    "model_eval_sts demo_env Sts_dev w = (1 / 4, w)"
    "float_div demo_env x y = x / y" "float_add demo_env x y = x + y" for w x y
    by (simp_all add: demo_env_def)
  have f: "filepath ?a = ''m.pt''" "files demo_state = Map.empty"
    by (simp_all add: get_args_default_def demo_state_def)
  obtain sk ds s1 tr w1 d1 w2 d2 w3 d3 w s' where
    sk: "for_each (train_epoch ?step demo_env ?a ?cfg) [0 ..< 0] demo_state = Inr sk"
    and ds: "length ds = 0"
    and "summary_dev_accs (stdout sk) = summary_dev_accs (stdout demo_state) @ ds"
    and "best_dev_acc sk = Max (set (0 # ds))"
    and "repeat 1000 ?step
           (sk\<lparr> world := model_train demo_env (world sk), train_loss := 0, num_batches := 0 \<rparr>)
         = Inr s1"
    and v: "model_eval_sst demo_env Sst_train (world s1) = (tr, w1)"
      "model_eval_sst demo_env Sst_dev w1 = (d1, w2)"
      "model_eval_para demo_env Para_dev w2 = (d2, w3)"
      "model_eval_sts demo_env Sts_dev w3 = (d3, w)"
    and "train_epoch ?step demo_env ?a ?cfg 0 sk = Inr s'"
    and r: "for_each (train_epoch ?step demo_env ?a ?cfg) [0 ..< Suc 0] demo_state = Inr s'"
    and w: "world s' = w"
    and i: "if float_div demo_env (float_add demo_env (float_add demo_env d1 d2) d3) 3
               > Max (set (0 # ds))
      then files s' = (files sk)(filepath ?a \<mapsto> save_info demo_env ?a ?cfg w) \<and>
           best_dev_acc s' = float_div demo_env (float_add demo_env (float_add demo_env d1 d2) d3) 3 \<and>
           stdout s' = stdout sk @
             [Text (''save the model to '' @ filepath ?a),
              Epoch_summary 0 (train_loss s1 / 1000) tr
                (float_div demo_env (float_add demo_env (float_add demo_env d1 d2) d3) 3)]
      else files s' = files sk \<and>
           best_dev_acc s' = best_dev_acc sk \<and>
           stdout s' = stdout sk @
             [Epoch_summary 0 (train_loss s1 / 1000) tr
                (float_div demo_env (float_add demo_env (float_add demo_env d1 d2) d3) 3)]"
    using checkpoint_iff_improved [OF h z, of ?cfg 0] by (elim exE conjE)
  have k: "sk = demo_state" "ds = []"
    using sk ds by simp_all
  have m: "d1 = 1 / 2" "d2 = 3 / 4" "d3 = 1 / 4"
    using v by (simp_all add: e)
  have "best_dev_acc s' = 1 / 2 \<and>
      files s' = [''m.pt'' \<mapsto> save_info demo_env ?a ?cfg (world s')]"
    using i by (simp add: k m e f w)
  with r h z show ?thesis by blast
qed

text \<open>
  Over a whole run both procedures return, and \<^verbatim>\<open>best_dev_acc\<close> is the greatest of
  zero and the averaged dev metrics of its epochs.
\<close>

lemma best_dev_acc_is_running_max:
  "\<exists>s' ds. train_PCGrad E a cfg s = Inr s' \<and> length ds = epochs a \<and>
      summary_dev_accs (stdout s') = summary_dev_accs (stdout s) @ ds \<and>
      best_dev_acc s' = Max (set (0 # ds))"
  "\<exists>s' ds. train_simultaneous E a cfg s = Inr s' \<and> length ds = epochs a \<and>
      summary_dev_accs (stdout s') = summary_dev_accs (stdout s) @ ds \<and>
      best_dev_acc s' = Max (set (0 # ds))"
  using epochs_best [of "train_PCGrad_step E a" E a cfg "[0 ..< epochs a]"
      "s\<lparr> best_dev_acc := 0, stdout := stdout s @ [Text ''Training with PCGrad''] \<rparr>"]
    epochs_best [of "train_simultaneous_step E a" E a cfg "[0 ..< epochs a]"
      "s\<lparr> best_dev_acc := 0, stdout := stdout s @ [Text ''Training alltogether''] \<rparr>"]
  by (simp_all add: train_PCGrad_def train_simultaneous_def)


subsection \<open>The similarity phase of the sequential procedure\<close>

lemma train_sts_step_raises: "train_sts_step E a batch s = Inl TypeError"
  by (simp add: train_sts_step_def sts_loss_two split: prod.split)

lemma for_each_raises_at_first:
  assumes "xs \<noteq> []" and "\<And>x. body x s = Inl e"
  shows "for_each body xs s = Inl e"
  using assms by (cases xs) simp_all

lemma train_sts_epoch_raises:
  assumes "fst (all_pair_batches E Sts_train (model_train E (world s))) \<noteq> []"
  shows "train_sts_epoch E a cfg epoch s = Inl TypeError"
proof -
  obtain batches w where
    b: "all_pair_batches E Sts_train (model_train E (world s)) = (batches, w)"
    by (metis prod.exhaust)
  with assms have "batches \<noteq> []" by simp
  then have "for_each (train_sts_step E a) batches
               (s\<lparr> world := w, train_loss := 0, num_batches := 0 \<rparr>) = Inl TypeError"
    by (rule for_each_raises_at_first) (rule train_sts_step_raises)
  then show ?thesis
    by (simp add: train_sts_epoch_def b)
qed

lemma train_sts_epoch_no_batches:
  assumes "fst (all_pair_batches E Sts_train (model_train E (world s))) = []"
  shows "train_sts_epoch E a cfg epoch s = Inl ZeroDivisionError"
proof -
  obtain batches w where
    b: "all_pair_batches E Sts_train (model_train E (world s)) = (batches, w)"
    by (metis prod.exhaust)
  with assms have "batches = []" by simp
  then show ?thesis
    by (simp add: train_sts_epoch_def b)
qed

lemma upt_first: "0 < n \<Longrightarrow> [0 ..< n] = 0 # [1 ..< n]"
  by (simp add: upt_conv_Cons)

text \<open>
  Claim C4. In the sequential procedure every training step of the STS phase raises a
  \<open>TypeError\<close>: line 585 calls \<^verbatim>\<open>sts_loss\<close> with two arguments, and it has three
  parameters. So no step of the phase completes, and a phase that has a first step
  (at least one epoch, at least one batch in the loader) ends with that \<open>TypeError\<close>.
\<close>

theorem sts_phase_type_error:
  "train_sts_step E a batch s = Inl TypeError \<and>
   (0 < epochs a \<and>
    fst (all_pair_batches E Sts_train (model_train E (new_optimizer E (world s)))) \<noteq> [] \<longrightarrow>
      train_sts_phase E a cfg s = Inl TypeError)"
proof (intro conjI impI)
  show "train_sts_step E a batch s = Inl TypeError"
    by (rule train_sts_step_raises)
next
  assume h: "0 < epochs a \<and>
    fst (all_pair_batches E Sts_train (model_train E (new_optimizer E (world s)))) \<noteq> []"
  let ?s = "s\<lparr> world := new_optimizer E (world s), best_dev_acc := 0,
               stdout := stdout s @ [Text ''Training STS''] \<rparr>"
  have "train_sts_epoch E a cfg 0 ?s = Inl TypeError"
    using h by (intro train_sts_epoch_raises) simp
  with h show "train_sts_phase E a cfg s = Inl TypeError"
    by (simp add: train_sts_phase_def upt_first)
qed

theorem sts_phase_type_error_witness:
  "train_sts_step demo_env (get_args_default ''m.pt'')
     \<lparr>token_ids_1 = 1, attention_mask_1 = 1, token_ids_2 = 2, attention_mask_2 = 1,
      pair_labels = 1\<rparr> demo_state = Inl TypeError \<and>
   0 < epochs (get_args_default ''m.pt'') \<and>
   fst (all_pair_batches demo_env Sts_train
          (model_train demo_env (new_optimizer demo_env (world demo_state)))) \<noteq> [] \<and>
   train_sts_phase demo_env (get_args_default ''m.pt'')
     (make_config (get_args_default ''m.pt'') [0, 1, 2, 3, 4]) demo_state = Inl TypeError"
proof -
  let ?a = "get_args_default ''m.pt''"
  have h: "0 < epochs ?a \<and>
    fst (all_pair_batches demo_env Sts_train
           (model_train demo_env (new_optimizer demo_env (world demo_state)))) \<noteq> []"
    by (simp add: get_args_default_def demo_env_def)
  from sts_phase_type_error [of demo_env ?a _ demo_state "make_config ?a [0, 1, 2, 3, 4]"] h
  show ?thesis by blast
qed

text \<open>
  The same for the whole procedure, once the sentiment and the paraphrase phase have
  returned; and a similarity loader without batches fails in another way.
\<close>

lemma train_multitask_type_error:
  assumes "train_sst_phase E a cfg s = Inr s1"
      and "train_para_phase E a cfg s1 = Inr s2"
      and "0 < epochs a"
      and "fst (all_pair_batches E Sts_train (model_train E (new_optimizer E (world s2)))) \<noteq> []"
  shows "train_multitask E a cfg s = Inl TypeError"
proof -
  let ?s = "s2\<lparr> world := new_optimizer E (world s2), best_dev_acc := 0,
               stdout := stdout s2 @ [Text ''Training STS''] \<rparr>"
  have "train_sts_epoch E a cfg 0 ?s = Inl TypeError"
    using assms(4) by (intro train_sts_epoch_raises) simp
  with assms(3) have "train_sts_phase E a cfg s2 = Inl TypeError"
    by (simp add: train_sts_phase_def upt_first)
  with assms(1,2) show ?thesis
    by (simp add: train_multitask_def)
qed

subsection \<open>Gradient surgery\<close>

lemma dot_zero_right: "\<forall>x \<in> set g. x = 0 \<Longrightarrow> dot pg g = 0"
proof (induction pg arbitrary: g)
  case Nil
  then show ?case by (simp add: dot_def)
next
  case (Cons p pg)
  then show ?case by (cases g) (auto simp: dot_def)
qed

lemma norm_sq_nonneg: "0 \<le> norm_sq g"
  by (induction g) (simp_all add: norm_sq_def dot_def)

lemma norm_sq_zero_iff: "norm_sq g = 0 \<longleftrightarrow> (\<forall>x \<in> set g. x = 0)"
proof (induction g)
  case Nil
  show ?case by (simp add: norm_sq_def dot_def)
next
  case (Cons x g)
  have "norm_sq (x # g) = x * x + norm_sq g"
    by (simp add: norm_sq_def dot_def)
  moreover have "0 \<le> x * x" by simp
  moreover have "0 \<le> norm_sq g" by (rule norm_sq_nonneg)
  ultimately have "norm_sq (x # g) = 0 \<longleftrightarrow> x * x = 0 \<and> norm_sq g = 0"
    by (simp add: add_nonneg_eq_0_iff)
  with Cons.IH show ?case by simp
qed

text \<open>Over the reals a gradient of zero norm is the zero vector, and no dot product with it is negative.\<close>

lemma zero_norm_dot: "norm_sq g = 0 \<Longrightarrow> dot pg g = 0"
  by (simp add: norm_sq_zero_iff dot_zero_right)

lemma project_pair_zero_norm: "norm_sq g = 0 \<Longrightarrow> project_pair pg g = Inr pg"
  by (simp add: project_pair_def)

lemma project_pair_no_division_by_zero: "project_pair pg g \<noteq> Inl ZeroDivisionError"
  by (simp add: project_pair_def projection_formula_def divide_checked_def)

lemma project_pairs_no_division_by_zero:
  "project_pairs grads order pgs \<noteq> Inl ZeroDivisionError"
proof (induction grads order pgs rule: project_pairs.induct)
  case (1 grads pgs)
  show ?case by simp
next
  case (2 grads i j rest pgs)
  then show ?case
    using project_pair_no_division_by_zero [of "pgs ! i" "grads ! j"]
    by (auto split: sum.splits)
qed

text \<open>
  Claim C9. A reference gradient \<open>g_j\<close> of zero norm never makes the pairwise
  projection divide by zero: neither the sweep over the pairs nor
  \<^verbatim>\<open>compute_combined_gradients\<close> ever ends in a \<open>ZeroDivisionError\<close>, the projection
  against such a \<open>g_j\<close> returns \<open>pg_i\<close> as it is, and in the sweep the pair
  \<open>(i, j)\<close> leaves every projected gradient unchanged.
\<close>

theorem zero_norm_projection_skipped:
  "compute_combined_gradients order grads \<noteq> Inl ZeroDivisionError \<and>
   project_pairs grads order pgs \<noteq> Inl ZeroDivisionError \<and>
   (norm_sq g = 0 \<longrightarrow> project_pair pg g = Inr pg) \<and>
   (i \<noteq> j \<and> i < length pgs \<and> j < length grads \<and> norm_sq (grads ! j) = 0 \<longrightarrow>
      project_pairs grads ((i, j) # rest) pgs = project_pairs grads rest pgs)"
proof (intro conjI impI)
  show "compute_combined_gradients order grads \<noteq> Inl ZeroDivisionError"
    using project_pairs_no_division_by_zero [of grads order grads]
    by (auto simp: compute_combined_gradients_def split: sum.splits)
  show "project_pairs grads order pgs \<noteq> Inl ZeroDivisionError"
    by (rule project_pairs_no_division_by_zero)
  show "project_pair pg g = Inr pg" if "norm_sq g = 0"
    using that by (rule project_pair_zero_norm)
  show "project_pairs grads ((i, j) # rest) pgs = project_pairs grads rest pgs"
    if "i \<noteq> j \<and> i < length pgs \<and> j < length grads \<and> norm_sq (grads ! j) = 0"
    using that by (simp add: project_pair_zero_norm)
qed

theorem zero_norm_projection_skipped_witness:
  "norm_sq [0, 0] = 0 \<and> project_pair [1, -2] [0, 0] = Inr [1, -2] \<and>
   (0::nat) \<noteq> 1 \<and> (0::nat) < length [[1, -2], [0, 0 :: real]] \<and>
   (1::nat) < length [[1, -2], [0, 0 :: real]] \<and>
   norm_sq ([[1, -2], [0, 0]] ! 1) = 0 \<and>
   project_pairs [[1, -2], [0, 0]] [(0, 1), (1, 0)] [[1, -2], [0, 0]] =
     project_pairs [[1, -2], [0, 0]] [(1, 0)] [[1, -2], [0, 0]] \<and>
   project_pairs [[1, -2], [0, 0]] [(0, 1), (1, 0)] [[1, -2], [0, 0]] = Inr [[1, -2], [0, 0]]"
proof -
  have h1: "norm_sq [0, 0] = 0"
    by (simp add: norm_sq_def dot_def)
  have h2: "(0::nat) \<noteq> 1 \<and> (0::nat) < length [[1, -2], [0, 0 :: real]] \<and>
      (1::nat) < length [[1, -2], [0, 0 :: real]] \<and> norm_sq ([[1, -2], [0, 0]] ! 1) = 0"
    by (simp add: norm_sq_def dot_def)
  have r: "project_pairs [[1, -2], [0, 0]] [(1, 0)] [[1, -2], [0, 0]] = Inr [[1, -2], [0, 0]]"
    by (simp add: project_pair_def dot_def)
  from zero_norm_projection_skipped
      [of "[(0, 1), (1, 0)]" "[[1, -2], [0, 0]]" "[[1, -2], [0, 0]]" "[0, 0]" "[1, -2]" 0 1 "[(1, 0)]"]
    h1 h2 r
  show ?thesis by simp
qed

lemma map2_keep_left: "length pg = length g \<Longrightarrow> map2 (\<lambda>p x. p) pg g = pg"
  by (induction pg g rule: list_induct2) simp_all

text \<open>
  Claim C10. The pairwise projection is idempotent against an orthogonal pair: for every
  \<open>pg_i\<close> and \<open>g_j\<close> with a zero dot product the projection step returns \<open>pg_i\<close>
  unchanged, and so it does whenever the dot product is zero or positive: no projection
  occurs. Where the step can apply the formula at all (a \<open>g_j\<close> of non-zero norm and
  of the dimension of \<open>pg_i\<close>), the formula itself returns \<open>pg_i\<close> at a zero dot
  product.
\<close>

theorem projection_orthogonal_unchanged:
  "(dot pg g = 0 \<longrightarrow> project_pair pg g = Inr pg) \<and>
   (0 \<le> dot pg g \<longrightarrow> project_pair pg g = Inr pg) \<and>
   (dot pg g = 0 \<and> norm_sq g \<noteq> 0 \<and> length pg = length g \<longrightarrow>
      projection_formula pg g = Inr pg)"
  by (simp add: projection_formula_def divide_checked_def project_pair_def map2_keep_left)

theorem projection_orthogonal_unchanged_witness:
  "dot [1, 2] [2, -1] = 0 \<and> project_pair [1, 2] [2, -1] = Inr [1, 2] \<and>
   0 \<le> dot [1, 2] [3, 1] \<and> project_pair [1, 2] [3, 1] = Inr [1, 2] \<and>
   norm_sq [2, -1] \<noteq> 0 \<and> length [1, 2 :: real] = length [2, -1 :: real] \<and>
   projection_formula [1, 2] [2, -1] = Inr [1, 2] \<and>
   dot [1, 2] [0, 0] = 0 \<and> project_pair [1, 2] [0, 0] = Inr [1, 2]"
proof -
  have h1: "dot [1, 2] [2, -1] = 0 \<and> norm_sq [2, -1] \<noteq> 0 \<and>
      length [1, 2 :: real] = length [2, -1 :: real]"
    by (simp add: dot_def norm_sq_def)
  have h2: "0 \<le> dot [1, 2] [3, 1]"
    by (simp add: dot_def)
  have h3: "dot [1, 2] [0, 0] = 0"
    by (simp add: dot_def)
  from projection_orthogonal_unchanged [of "[1, 2]" "[2, -1]"]
    projection_orthogonal_unchanged [of "[1, 2]" "[3, 1]"]
    projection_orthogonal_unchanged [of "[1, 2]" "[0, 0]"] h1 h2 h3
  show ?thesis by blast
qed

text \<open>Two opposite unit gradients: the projection cancels the conflicting component.\<close>

lemma opposite_unit_cancel:
  "project_pair [1, 0] [-1, 0] = Inr [0, 0]"
  by (simp add: project_pair_def projection_formula_def divide_checked_def dot_def norm_sq_def)


end
